theory Spec2Isabelle
  imports Main "HOL-Library.Word"
begin

unbundle bit_operations_syntax

section \<open>The host as find\_java.cpp sees it\<close>

text \<open>
  \<^verbatim>\<open>find_java.cpp\<close> locates a runnable \<^verbatim>\<open>java.exe\<close> on a Windows host. Everything it
  learns comes from calls into the C runtime, the Win32 API and the helpers of
  \<^verbatim>\<open>utils.h\<close> (\<^verbatim>\<open>CPath\<close>, \<^verbatim>\<open>CString\<close>, \<^verbatim>\<open>execWait\<close>). None of those is part of the
  file, so they are parameters of the model: a \<open>world\<close> gives the answer of each call.
  Paths and strings are \<open>string\<close>s, a \<^verbatim>\<open>DWORD\<close> and a \<^verbatim>\<open>REGSAM\<close> are 32-bit words, an
  \<^verbatim>\<open>LSTATUS\<close> and the \<^verbatim>\<open>int\<close> of \<^verbatim>\<open>execWait\<close> are integers.
\<close>

type_synonym dword = "32 word"
type_synonym regsam = "32 word"
type_synonym lstatus = int
type_synonym hkey = nat
type_synonym hprocess = nat

text \<open>The WOW64 file system redirection of the calling thread.\<close>

datatype fs_redirection = Redirected | Suppressed

text \<open>\<^verbatim>\<open>WIN32_FIND_DATAA\<close>, the two fields the code reads.\<close>

record find_data =
  dwFileAttributes :: dword
  cFileName :: string

record world =
  getenv :: "string \<Rightarrow> string option"
    \<comment> \<open>\<^verbatim>\<open>getenv\<close>: \<open>None\<close> is \<^verbatim>\<open>NULL\<close>\<close>
  addPath :: "string \<Rightarrow> string \<Rightarrow> string"
    \<comment> \<open>\<^verbatim>\<open>CPath::addPath\<close>: the path with one more segment\<close>
  split :: "string \<Rightarrow> char \<Rightarrow> string list"
    \<comment> \<open>\<^verbatim>\<open>CString::split\<close>\<close>
  fileExists :: "fs_redirection \<Rightarrow> string \<Rightarrow> bool"
    \<comment> \<open>\<^verbatim>\<open>CPath::fileExists\<close>, under the redirection in force\<close>
  dirExists :: "fs_redirection \<Rightarrow> string \<Rightarrow> bool"
    \<comment> \<open>\<^verbatim>\<open>CPath::dirExists\<close>\<close>
  execWait :: "fs_redirection \<Rightarrow> string \<Rightarrow> int"
    \<comment> \<open>\<^verbatim>\<open>execWait\<close>: runs the command line, waits, returns the exit code\<close>
  RegOpenKeyExA :: "string \<Rightarrow> regsam \<Rightarrow> lstatus \<times> hkey"
    \<comment> \<open>under \<^verbatim>\<open>HKEY_LOCAL_MACHINE\<close>: the status and the key handle\<close>
  RegQueryValueExA :: "hkey \<Rightarrow> string \<Rightarrow> dword \<Rightarrow> lstatus \<times> dword \<times> string option"
    \<comment> \<open>key, value name, \<^verbatim>\<open>*lpcbData\<close> on entry: the status, \<^verbatim>\<open>*lpcbData\<close> on return,
        and the bytes copied to \<^verbatim>\<open>lpData\<close> (\<open>None\<close>: the buffer is not touched)\<close>
  heap_byte :: "nat \<Rightarrow> char"
    \<comment> \<open>the byte found at an offset of a block that \<^verbatim>\<open>malloc\<close> has not initialised\<close>
  SHGetFolderPathA :: "fs_redirection \<Rightarrow> string option"
    \<comment> \<open>for \<^verbatim>\<open>CSIDL_PROGRAM_FILES\<close>: \<open>None\<close> is a \<^verbatim>\<open>FAILED\<close> result\<close>
  FindFileA :: "fs_redirection \<Rightarrow> string \<Rightarrow> find_data list"
    \<comment> \<open>the entries that \<^verbatim>\<open>FindFirstFileA\<close> and then \<^verbatim>\<open>FindNextFileA\<close> deliver for a
        pattern, in their order; \<open>[]\<close> is \<^verbatim>\<open>INVALID_HANDLE_VALUE\<close>\<close>
  wProcessorArchitecture :: "16 word"
    \<comment> \<open>of \<^verbatim>\<open>GetNativeSystemInfo\<close>\<close>
  CreatePipe :: bool
  CreateProcessA :: "string \<Rightarrow> hprocess option"
    \<comment> \<open>\<open>None\<close>: the call returned 0\<close>
  GetExitCodeProcess :: "hprocess \<Rightarrow> dword option"
    \<comment> \<open>\<open>None\<close>: the call returned 0\<close>

text \<open>
  The state of the running process that the code changes: the redirection of the thread,
  the probes made so far (the file system, registry and process calls that examine a
  candidate, oldest first), and whether a store went past the end of a heap block.
\<close>

datatype probe =
    FileExists string
  | DirExists string
  | ExecWait string
  | RegOpen string regsam
  | RegQuery hkey string dword
  | FolderPath
  | FindFirstFile string
  | FindNextFile
  | CreateProcess string
  | WaitForSingleObject hprocess

record proc =
  wow64 :: fs_redirection
  probes :: "probe list"
  heap_overrun :: bool

definition probed :: "probe \<Rightarrow> proc \<Rightarrow> proc" where
  "probed e st = st\<lparr>probes := probes st @ [e]\<rparr>"

subsection \<open>Constants of the Windows headers\<close>

definition ERROR_SUCCESS :: lstatus where "ERROR_SUCCESS = 0"
definition ERROR_FILE_NOT_FOUND :: lstatus where "ERROR_FILE_NOT_FOUND = 2"
definition ERROR_MORE_DATA :: lstatus where "ERROR_MORE_DATA = 234"
definition KEY_READ :: regsam where "KEY_READ = 0x20019"
definition KEY_WOW64_64KEY :: regsam where "KEY_WOW64_64KEY = 0x0100"
definition KEY_WOW64_32KEY :: regsam where "KEY_WOW64_32KEY = 0x0200"
definition FILE_ATTRIBUTE_DIRECTORY :: dword where "FILE_ATTRIBUTE_DIRECTORY = 0x10"
definition PROCESSOR_ARCHITECTURE_AMD64 :: "16 word" where "PROCESSOR_ARCHITECTURE_AMD64 = 9"
definition NUL :: char where "NUL = CHR 0x00"

subsection \<open>The redirection guard of utils.h\<close>

text \<open>
  Modelled from the spec: \<^verbatim>\<open>disableWow64FsRedirection\<close> is declared in \<^verbatim>\<open>utils.h\<close>,
  which is not among the sources. The spec (4.5) describes it as the acquisition of the
  suppression of the redirection, which hands out a token for the state it found.
\<close>

definition disableWow64FsRedirection :: "proc \<Rightarrow> fs_redirection \<times> proc" where
  "disableWow64FsRedirection st = (wow64 st, st\<lparr>wow64 := Suppressed\<rparr>)"

text \<open>
  Modelled from the spec: \<^verbatim>\<open>revertWow64FsRedirection\<close>, declared in \<^verbatim>\<open>utils.h\<close> as
  well, is the release by the original token (4.5): it puts the state of the token back.
\<close>

definition revertWow64FsRedirection :: "fs_redirection \<Rightarrow> proc \<Rightarrow> proc" where
  "revertWow64FsRedirection oldWow64Value st = st\<lparr>wow64 := oldWow64Value\<rparr>"

section \<open>Checking a candidate directory\<close>

text \<open>The command line \<^verbatim>\<open>"%s" -version\<close> that \<^verbatim>\<open>setf\<close> builds.\<close>

definition version_cmd :: "string \<Rightarrow> string" where
  "version_cmd p = [CHR 0x22] @ p @ [CHR 0x22] @ '' -version''"

text \<open>
  \<^verbatim>\<open>checkPath\<close> changes the path it is given: the result is the boolean, the path as it
  leaves it, and the process state.
\<close>

definition checkPath :: "world \<Rightarrow> proc \<Rightarrow> string \<Rightarrow> bool \<times> string \<times> proc" where
  "checkPath w st inOutPath =
     (let p = addPath w inOutPath ''java.exe'';
          (oldWow64Value, st1) = disableWow64FsRedirection st;
          (result, st2) =
            (if fileExists w (wow64 st1) p
             then (let cmd = version_cmd p;
                       code = execWait w (wow64 st1) cmd
                   in (code = 0, probed (ExecWait cmd) (probed (FileExists p) st1)))
             else (False, probed (FileExists p) st1))
      in (result, p, revertWow64FsRedirection oldWow64Value st2))"

definition checkBinPath :: "world \<Rightarrow> proc \<Rightarrow> string \<Rightarrow> bool \<times> string \<times> proc" where
  "checkBinPath w st inOutPath = checkPath w st (addPath w inOutPath ''bin'')"

section \<open>Searching the environment\<close>

text \<open>
  The loop over the entries of \<^verbatim>\<open>PATH\<close>. \<^verbatim>\<open>SetLastError\<close> and the message boxes of the
  debug mode change nothing that the search reads, and are left out.
\<close>

fun findJavaInEnvPath_loop ::
  "world \<Rightarrow> proc \<Rightarrow> string list \<Rightarrow> string \<Rightarrow> bool \<times> string \<times> proc" where
  "findJavaInEnvPath_loop w st [] outJavaPath = (False, outJavaPath, st)"
| "findJavaInEnvPath_loop w st (e # paths) outJavaPath =
     (case checkPath w st e of
        (found, p, st') \<Rightarrow>
          if found then (True, p, st')
          else findJavaInEnvPath_loop w st' paths outJavaPath)"

definition findJavaInEnvPath :: "world \<Rightarrow> proc \<Rightarrow> string \<Rightarrow> bool \<times> string \<times> proc" where
  "findJavaInEnvPath w st outJavaPath =
     (let (found, p, st1) =
            (case getenv w ''JAVA_HOME'' of
               None \<Rightarrow> (False, outJavaPath, st)
             | Some envPath \<Rightarrow> checkBinPath w st envPath)
      in if found then (True, p, st1)
         else (case getenv w ''PATH'' of
                 None \<Rightarrow> (False, outJavaPath, st1)
               | Some envPath \<Rightarrow>
                   findJavaInEnvPath_loop w st1 (split w envPath (CHR '';'')) outJavaPath))"

section \<open>Searching the registry\<close>

subsection \<open>The buffer of getRegValue\<close>

text \<open>
  A heap block is the list of its bytes. \<^verbatim>\<open>malloc\<close> leaves them as the heap has them,
  \<^verbatim>\<open>realloc\<close> keeps the bytes that fit. \<^verbatim>\<open>buffer[size] = 0\<close> is a store into the block
  when \<^verbatim>\<open>size\<close> is an index of it; when it is not, C gives the store no meaning: the
  block stays as it is and the process state records the overrun. \<^verbatim>\<open>CString::set\<close> copies
  the bytes before the first NUL.
\<close>

definition malloc :: "world \<Rightarrow> nat \<Rightarrow> string" where
  "malloc w n = map (heap_byte w) [0..<n]"

definition realloc :: "world \<Rightarrow> string \<Rightarrow> nat \<Rightarrow> string" where
  "realloc w buffer n = take n buffer @ map (heap_byte w) [length buffer..<n]"

definition copied :: "string \<Rightarrow> string option \<Rightarrow> string" where
  "copied buffer bytes =
     (case bytes of
        None \<Rightarrow> buffer
      | Some d \<Rightarrow> take (length buffer) d @ drop (length d) buffer)"

definition store_nul :: "string \<Rightarrow> nat \<Rightarrow> proc \<Rightarrow> string \<times> proc" where
  "store_nul buffer i st =
     (if i < length buffer then (buffer[i := NUL], st)
      else (buffer, st\<lparr>heap_overrun := True\<rparr>))"

definition c_str :: "string \<Rightarrow> string" where
  "c_str buffer = takeWhile (\<lambda>c. c \<noteq> NUL) buffer"

subsection \<open>getRegValue\<close>

text \<open>
  The \<^verbatim>\<open>while\<close> loop, on the variables \<^verbatim>\<open>ret\<close>, \<^verbatim>\<open>size\<close>, \<^verbatim>\<open>buffer\<close> and the process
  state. Nothing in the code bounds the number of its rounds, so the result is an option:
  \<open>None\<close> when the loop does not end.
\<close>

partial_function (option) getRegValue_loop ::
  "world \<Rightarrow> hkey \<Rightarrow> string \<Rightarrow> lstatus \<times> dword \<times> string \<times> proc
     \<Rightarrow> (lstatus \<times> dword \<times> string \<times> proc) option" where
  "getRegValue_loop w key keyName x =
     (case x of
        (ret, sz, buffer, st) \<Rightarrow>
          if ret = ERROR_MORE_DATA \<and> sz < 65536 then
            (case RegQueryValueExA w key keyName sz of
               (ret', sz', bytes) \<Rightarrow>
                 let buffer' = copied buffer bytes;
                     st' = probed (RegQuery key keyName sz) st
                 in if ret' = ERROR_MORE_DATA
                    then getRegValue_loop w key keyName
                           (ret', sz' * 2, realloc w buffer' (unat (sz' * 2)), st')
                    else (case store_nul buffer' (unat sz') st' of
                            (buffer'', st'') \<Rightarrow>
                              getRegValue_loop w key keyName (ret', sz', buffer'', st'')))
          else Some x)"

definition getRegValue ::
  "world \<Rightarrow> proc \<Rightarrow> string \<Rightarrow> string \<Rightarrow> regsam \<Rightarrow> string \<Rightarrow> (bool \<times> string \<times> proc) option" where
  "getRegValue w st keyPath keyName access outValue =
     (case RegOpenKeyExA w keyPath (KEY_READ OR access) of
        (status, key) \<Rightarrow>
          let st0 = probed (RegOpen keyPath (KEY_READ OR access)) st
          in if status = ERROR_SUCCESS then
               (case getRegValue_loop w key keyName
                       (ERROR_MORE_DATA, 4096, malloc w 4096, st0) of
                  None \<Rightarrow> None
                | Some (ret, sz, buffer, st1) \<Rightarrow>
                    Some (ret \<noteq> ERROR_MORE_DATA,
                          if ret \<noteq> ERROR_MORE_DATA then c_str buffer else outValue,
                          st1))
             else Some (False, outValue, st0))"


subsection \<open>exploreJavaRegistry and findJavaInRegistry\<close>

definition JavaSoft :: string where
  "JavaSoft = ''SOFTWARE'' @ [CHR 0x5C] @ ''JavaSoft'' @ [CHR 0x5C]"

definition exploreJavaRegistry ::
  "world \<Rightarrow> string \<Rightarrow> regsam \<Rightarrow> proc \<Rightarrow> string \<Rightarrow> (bool \<times> string \<times> proc) option" where
  "exploreJavaRegistry w entry access st outJavaPath =
     (let subKey = addPath w JavaSoft entry
      in case getRegValue w st subKey ''CurrentVersion'' access [] of
           None \<Rightarrow> None
         | Some (got, currVersion, st1) \<Rightarrow>
             if got then
               (let subKey' = addPath w subKey currVersion
                in case getRegValue w st1 subKey' ''JavaHome'' access [] of
                     None \<Rightarrow> None
                   | Some (got', javaHome, st2) \<Rightarrow>
                       if got' then
                         (case checkBinPath w st2 javaHome of
                            (ok, javaHome', st3) \<Rightarrow>
                              if ok then Some (True, javaHome', st3)
                              else Some (False, outJavaPath, st3))
                       else Some (False, outJavaPath, st2))
             else Some (False, outJavaPath, st1))"

text \<open>The \<^verbatim>\<open>||\<close> of C++ on two lookups: the second runs only when the first is false.\<close>

definition or_else ::
  "(proc \<Rightarrow> string \<Rightarrow> (bool \<times> string \<times> proc) option)
     \<Rightarrow> (proc \<Rightarrow> string \<Rightarrow> (bool \<times> string \<times> proc) option)
     \<Rightarrow> proc \<Rightarrow> string \<Rightarrow> (bool \<times> string \<times> proc) option" where
  "or_else f g st outJavaPath =
     (case f st outJavaPath of
        None \<Rightarrow> None
      | Some (found, p, st1) \<Rightarrow> if found then Some (True, p, st1) else g st1 p)"

definition findJavaInRegistry ::
  "world \<Rightarrow> proc \<Rightarrow> string \<Rightarrow> (bool \<times> string \<times> proc) option" where
  "findJavaInRegistry w st outJavaPath =
     (case or_else (exploreJavaRegistry w ''Java Runtime Environment'' 0)
                   (exploreJavaRegistry w ''Java Development Kit'' 0) st outJavaPath of
        None \<Rightarrow> None
      | Some (found, p, st1) \<Rightarrow>
          if found then Some (True, p, st1)
          else if wProcessorArchitecture w = PROCESSOR_ARCHITECTURE_AMD64 then
            (case or_else (exploreJavaRegistry w ''Java Runtime Environment'' KEY_WOW64_32KEY)
                          (exploreJavaRegistry w ''Java Development Kit'' KEY_WOW64_32KEY)
                          st1 p of
               None \<Rightarrow> None
             | Some (found', p', st2) \<Rightarrow>
                 if found' then Some (True, p', st2)
                 else (case or_else
                              (exploreJavaRegistry w ''Java Runtime Environment'' KEY_WOW64_64KEY)
                              (exploreJavaRegistry w ''Java Development Kit'' KEY_WOW64_64KEY)
                              st2 p' of
                         None \<Rightarrow> None
                       | Some (found'', p'', st3) \<Rightarrow>
                           if found'' then Some (True, p'', st3)
                           else Some (False, p'', st3)))
          else Some (False, p, st1))"

subsection \<open>The order of the lookups, as the spec words it\<close>

text \<open>
  The spec (4.3) lists the combinations of product and registry view in a fixed order,
  the four forced views only on a 64-bit host, and lets the first validated match end
  the search. \<open>registry_order\<close> is that list and \<open>first_validated\<close> runs
  \<^verbatim>\<open>exploreJavaRegistry\<close> along a list until one lookup is true.
\<close>

definition registry_order :: "world \<Rightarrow> (string \<times> regsam) list" where
  "registry_order w =
     [(''Java Runtime Environment'', 0), (''Java Development Kit'', 0)] @
     (if wProcessorArchitecture w = PROCESSOR_ARCHITECTURE_AMD64
      then [(''Java Runtime Environment'', KEY_WOW64_32KEY),
            (''Java Development Kit'', KEY_WOW64_32KEY),
            (''Java Runtime Environment'', KEY_WOW64_64KEY),
            (''Java Development Kit'', KEY_WOW64_64KEY)]
      else [])"

fun first_validated ::
  "world \<Rightarrow> (string \<times> regsam) list \<Rightarrow> proc \<Rightarrow> string \<Rightarrow> (bool \<times> string \<times> proc) option" where
  "first_validated w [] st out = Some (False, out, st)"
| "first_validated w ((entry, access) # rest) st out =
     (case exploreJavaRegistry w entry access st out of
        None \<Rightarrow> None
      | Some (found, p, st') \<Rightarrow>
          if found then Some (True, p, st') else first_validated w rest st' p)"

section \<open>Searching Program Files\<close>

text \<open>
  The body of the \<^verbatim>\<open>do ... while\<close> loop of \<^verbatim>\<open>checkProgramFiles\<close>, for the entry in
  \<open>findData\<close>. The triple is \<^verbatim>\<open>found\<close>, \<^verbatim>\<open>*outJavaPath\<close> and the process state.
\<close>

definition checkProgramFiles_body ::
  "world \<Rightarrow> string \<Rightarrow> find_data \<Rightarrow> bool \<times> string \<times> proc \<Rightarrow> bool \<times> string \<times> proc" where
  "checkProgramFiles_body w path findData s =
     (case s of
        (found, outJavaPath, st) \<Rightarrow>
          if dwFileAttributes findData AND FILE_ATTRIBUTE_DIRECTORY \<noteq> 0
          then (case checkBinPath w st (addPath w path (cFileName findData)) of
                  (ok, temp, st') \<Rightarrow>
                    if ok then (True, temp, st') else (found, outJavaPath, st'))
          else (found, outJavaPath, st))"

text \<open>
  The loop: after the body, \<^verbatim>\<open>!found && FindNextFileA(...) != 0\<close> decides whether it
  goes on. \<open>rest\<close> are the entries that \<^verbatim>\<open>FindNextFileA\<close> has yet to deliver; the call
  is made only when \<^verbatim>\<open>found\<close> is false.
\<close>

fun checkProgramFiles_loop ::
  "world \<Rightarrow> string \<Rightarrow> find_data \<Rightarrow> find_data list \<Rightarrow> bool \<times> string \<times> proc
     \<Rightarrow> bool \<times> string \<times> proc" where
  "checkProgramFiles_loop w path findData [] s =
     (case checkProgramFiles_body w path findData s of
        (found, outJavaPath, st) \<Rightarrow>
          if \<not> found then (found, outJavaPath, probed FindNextFile st)
          else (found, outJavaPath, st))"
| "checkProgramFiles_loop w path findData (next # rest) s =
     (case checkProgramFiles_body w path findData s of
        (found, outJavaPath, st) \<Rightarrow>
          if \<not> found
          then checkProgramFiles_loop w path next rest
                 (found, outJavaPath, probed FindNextFile st)
          else (found, outJavaPath, st))"

definition checkProgramFiles :: "world \<Rightarrow> proc \<Rightarrow> string \<Rightarrow> bool \<times> string \<times> proc" where
  "checkProgramFiles w st outJavaPath =
     (let st0 = probed FolderPath st
      in (case SHGetFolderPathA w (wow64 st) of
            None \<Rightarrow> (False, outJavaPath, st0)
          | Some programFilesPath \<Rightarrow>
              (let path = addPath w programFilesPath ''Java'';
                   st1 = probed (DirExists path) st0
               in if \<not> dirExists w (wow64 st) path then (False, outJavaPath, st1)
                  else (let glob = addPath w path ''j*'';
                            st2 = probed (FindFirstFile glob) st1
                        in (case FindFileA w (wow64 st) glob of
                              [] \<Rightarrow> (False, outJavaPath, st2)
                            | findData # rest \<Rightarrow>
                                checkProgramFiles_loop w path findData rest
                                  (False, outJavaPath, st2))))))"

definition findJavaInProgramFiles :: "world \<Rightarrow> proc \<Rightarrow> string \<Rightarrow> bool \<times> string \<times> proc" where
  "findJavaInProgramFiles w st outJavaPath =
     (case checkProgramFiles w st outJavaPath of
        (found, p, st1) \<Rightarrow>
          if found then (True, p, st1)
          else if wProcessorArchitecture w = PROCESSOR_ARCHITECTURE_AMD64 then
            (case disableWow64FsRedirection st1 of
               (oldWow64Value, st2) \<Rightarrow>
                 (case checkProgramFiles w st2 p of
                    (found', p', st3) \<Rightarrow>
                      (found', p', revertWow64FsRedirection oldWow64Value st3)))
          else (False, p, st1))"

subsection \<open>The first accepted directory\<close>

text \<open>
  What one pass over \<^verbatim>\<open>Program Files\Java\<close> is expected to deliver, in a view \<open>r\<close> of
  the file system. An entry of the enumeration is accepted when it is a directory and
  \<^verbatim>\<open>checkBinPath\<close> accepts it. \<open>first_accepted\<close> is the launcher path of the first
  accepted entry, if the folder resolves, the directory exists and there is one;
  \<open>rejected_before\<close> counts the entries in front of it (all of them, when none is
  accepted).
\<close>

definition accepted_dir :: "world \<Rightarrow> proc \<Rightarrow> string \<Rightarrow> find_data \<Rightarrow> bool" where
  "accepted_dir w st path fd =
     (dwFileAttributes fd AND FILE_ATTRIBUTE_DIRECTORY \<noteq> 0
      \<and> fst (checkBinPath w st (addPath w path (cFileName fd))))"

definition first_accepted :: "world \<Rightarrow> proc \<Rightarrow> fs_redirection \<Rightarrow> string option" where
  "first_accepted w st r =
     (case SHGetFolderPathA w r of
        None \<Rightarrow> None
      | Some programFilesPath \<Rightarrow>
          (let path = addPath w programFilesPath ''Java''
           in if dirExists w r path
              then (case List.find (accepted_dir w st path)
                           (FindFileA w r (addPath w path ''j*'')) of
                      None \<Rightarrow> None
                    | Some fd \<Rightarrow>
                        Some (addPath w (addPath w (addPath w path (cFileName fd)) ''bin'')
                                ''java.exe''))
              else None))"

definition rejected_before :: "world \<Rightarrow> proc \<Rightarrow> fs_redirection \<Rightarrow> nat" where
  "rejected_before w st r =
     (case SHGetFolderPathA w r of
        None \<Rightarrow> 0
      | Some programFilesPath \<Rightarrow>
          (let path = addPath w programFilesPath ''Java''
           in if dirExists w r path
              then length (takeWhile (\<lambda>fd. \<not> accepted_dir w st path fd)
                             (FindFileA w r (addPath w path ''j*'')))
              else 0))"

definition next_calls :: "proc \<Rightarrow> nat" where
  "next_calls st = length (filter (\<lambda>e. e = FindNextFile) (probes st))"

section \<open>Asking for the version\<close>

text \<open>
  \<^verbatim>\<open>getJavaVersion\<close> takes the path and the \<^verbatim>\<open>version\<close> string it could fill in; the
  result is its boolean, \<^verbatim>\<open>*version\<close> as it leaves it, and the process state.
\<close>

definition getJavaVersion :: "world \<Rightarrow> proc \<Rightarrow> string \<Rightarrow> string \<Rightarrow> bool \<times> string \<times> proc" where
  "getJavaVersion w st javaPath version =
     (let cmd = version_cmd javaPath
      in if \<not> CreatePipe w then (False, version, st)
         else (case CreateProcessA w cmd of
                 None \<Rightarrow> (False, version, probed (CreateProcess cmd) st)
               | Some hProcess \<Rightarrow>
                   let st1 = probed (WaitForSingleObject hProcess)
                               (probed (CreateProcess cmd) st)
                   in (case GetExitCodeProcess w hProcess of
                         None \<Rightarrow> (False, version, st1)
                       | Some exitCode \<Rightarrow> (exitCode = 0, version, st1))))"

section \<open>Example hosts\<close>

text \<open>
  Concrete hosts on which the theorems below are instantiated. Their \<open>addPath\<close> joins
  two segments with a backslash unless the first is empty or ends in one, and their
  \<open>split\<close> cuts at every separator.
\<close>

definition join_path :: "string \<Rightarrow> string \<Rightarrow> string" where
  "join_path p s = (if p = [] \<or> last p = CHR 0x5C then p @ s else p @ [CHR 0x5C] @ s)"

fun split_on :: "char \<Rightarrow> string \<Rightarrow> string list" where
  "split_on sep [] = [[]]"
| "split_on sep (c # cs) =
     (if c = sep then [] # split_on sep cs
      else (case split_on sep cs of
              [] \<Rightarrow> [[c]]
            | x # xs \<Rightarrow> (c # x) # xs))"

definition fresh :: proc where
  "fresh = \<lparr>wow64 = Redirected, probes = [], heap_overrun = False\<rparr>"

text \<open>A host with no Java anywhere: every lookup fails.\<close>

definition bare_host :: world where
  "bare_host =
     \<lparr>getenv = (\<lambda>name. None),
      addPath = join_path,
      split = (\<lambda>s sep. split_on sep s),
      fileExists = (\<lambda>r p. False),
      dirExists = (\<lambda>r p. False),
      execWait = (\<lambda>r cmd. -1),
      RegOpenKeyExA = (\<lambda>keyPath sam. (ERROR_FILE_NOT_FOUND, 0)),
      RegQueryValueExA = (\<lambda>key name sz. (ERROR_FILE_NOT_FOUND, sz, None)),
      heap_byte = (\<lambda>i. NUL),
      SHGetFolderPathA = (\<lambda>r. None),
      FindFileA = (\<lambda>r pattern. []),
      wProcessorArchitecture = 0,
      CreatePipe = False,
      CreateProcessA = (\<lambda>cmd. None),
      GetExitCodeProcess = (\<lambda>h. None)\<rparr>"

text \<open>
  \<^verbatim>\<open>JAVA_HOME\<close> is \<^verbatim>\<open>J:\<close> and \<^verbatim>\<open>PATH\<close> is \<^verbatim>\<open>X:;Y:;Z:\<close>. A launcher that runs is at
  \<^verbatim>\<open>J:\bin\java.exe\<close> and another at \<^verbatim>\<open>Z:\java.exe\<close>; \<^verbatim>\<open>Y:\java.exe\<close> exists and exits
  with 1.
\<close>

definition env_host :: world where
  "env_host = bare_host
     \<lparr>getenv := (\<lambda>name. if name = ''JAVA_HOME'' then Some ''J:''
                       else if name = ''PATH'' then Some ''X:;Y:;Z:'' else None),
      fileExists := (\<lambda>r p. p = join_path (join_path ''J:'' ''bin'') ''java.exe''
                       \<or> p = join_path ''Y:'' ''java.exe''
                       \<or> p = join_path ''Z:'' ''java.exe''),
      execWait := (\<lambda>r cmd.
                     if cmd = version_cmd (join_path (join_path ''J:'' ''bin'') ''java.exe'')
                        \<or> cmd = version_cmd (join_path ''Z:'' ''java.exe'')
                     then 0 else 1)\<rparr>"

text \<open>The same host with \<^verbatim>\<open>JAVA_HOME\<close> pointing at \<^verbatim>\<open>Q:\<close>, where there is no launcher.\<close>

definition path_host :: world where
  "path_host = env_host
     \<lparr>getenv := (\<lambda>name. if name = ''JAVA_HOME'' then Some ''Q:''
                       else if name = ''PATH'' then Some ''X:;Y:;Z:'' else None)\<rparr>"

text \<open>
  \<^verbatim>\<open>Program Files\<close> is \<^verbatim>\<open>P:\<close>. \<^verbatim>\<open>P:\Java\<close> holds the directories \<^verbatim>\<open>jdk1.8\<close> and
  \<^verbatim>\<open>jre1.6\<close>, delivered in this order, each with a launcher under \<^verbatim>\<open>bin\<close> that runs.
\<close>

definition jdk_entry :: find_data where
  "jdk_entry = \<lparr>dwFileAttributes = 0x10, cFileName = ''jdk1.8''\<rparr>"

definition jre_entry :: find_data where
  "jre_entry = \<lparr>dwFileAttributes = 0x10, cFileName = ''jre1.6''\<rparr>"

definition launcher_under :: "string \<Rightarrow> string" where
  "launcher_under d = join_path (join_path d ''bin'') ''java.exe''"

definition pf_host :: world where
  "pf_host = bare_host
     \<lparr>SHGetFolderPathA := (\<lambda>r. Some ''P:''),
      dirExists := (\<lambda>r p. p = join_path ''P:'' ''Java''),
      FindFileA := (\<lambda>r pattern.
                      if pattern = join_path (join_path ''P:'' ''Java'') ''j*''
                      then [jdk_entry, jre_entry] else []),
      fileExists := (\<lambda>r p.
                       p = launcher_under (join_path (join_path ''P:'' ''Java'') ''jdk1.8'')
                       \<or> p = launcher_under (join_path (join_path ''P:'' ''Java'') ''jre1.6'')),
      execWait := (\<lambda>r cmd. 0)\<rparr>"

text \<open>
  The same installation on a 64-bit host where \<^verbatim>\<open>P:\Java\<close> is seen only with the
  redirection suppressed.
\<close>

definition pf64_host :: world where
  "pf64_host = pf_host
     \<lparr>wProcessorArchitecture := PROCESSOR_ARCHITECTURE_AMD64,
      dirExists := (\<lambda>r p. r = Suppressed \<and> p = join_path ''P:'' ''Java'')\<rparr>"

text \<open>
  A 64-bit host where \<^verbatim>\<open>P:\Java\<close> is seen only with the redirection suppressed, and
  the enumeration delivers the file \<^verbatim>\<open>java.ico\<close>, the directory \<^verbatim>\<open>j2se\<close> without a
  launcher, and then \<^verbatim>\<open>jdk1.8\<close> and \<^verbatim>\<open>jre1.6\<close>.
\<close>

definition pf64_mixed_host :: world where
  "pf64_mixed_host = pf64_host
     \<lparr>FindFileA := (\<lambda>r pattern.
        if r = Suppressed \<and> pattern = join_path (join_path ''P:'' ''Java'') ''j*''
        then [\<lparr>dwFileAttributes = 0x20, cFileName = ''java.ico''\<rparr>,
              \<lparr>dwFileAttributes = 0x10, cFileName = ''j2se''\<rparr>,
              jdk_entry, jre_entry]
        else [])\<rparr>"

text \<open>
  A 64-bit host whose registry has Java only in the 32-bit view: there
  \<^verbatim>\<open>SOFTWARE\JavaSoft\Java Runtime Environment\<close> has \<^verbatim>\<open>CurrentVersion\<close> \<^verbatim>\<open>1.7\<close>, and its
  subkey \<^verbatim>\<open>1.7\<close> has \<^verbatim>\<open>JavaHome\<close> \<^verbatim>\<open>R:\<close>, where a launcher runs. Strings in the registry
  end with a NUL.
\<close>

definition jre_key :: string where
  "jre_key = join_path JavaSoft ''Java Runtime Environment''"

definition view32_host :: world where
  "view32_host = bare_host
     \<lparr>wProcessorArchitecture := PROCESSOR_ARCHITECTURE_AMD64,
      RegOpenKeyExA := (\<lambda>keyPath sam.
         if sam = KEY_READ OR KEY_WOW64_32KEY \<and> keyPath = jre_key
         then (ERROR_SUCCESS, 11)
         else if sam = KEY_READ OR KEY_WOW64_32KEY \<and> keyPath = join_path jre_key ''1.7''
         then (ERROR_SUCCESS, 12)
         else (ERROR_FILE_NOT_FOUND, 0)),
      RegQueryValueExA := (\<lambda>key name sz.
         if key = 11 \<and> name = ''CurrentVersion'' then (ERROR_SUCCESS, 4, Some (''1.7'' @ [NUL]))
         else if key = 12 \<and> name = ''JavaHome'' then (ERROR_SUCCESS, 3, Some (''R:'' @ [NUL]))
         else (ERROR_FILE_NOT_FOUND, sz, None)),
      fileExists := (\<lambda>r p. p = launcher_under ''R:''),
      execWait := (\<lambda>r cmd. 0)\<rparr>"

text \<open>
  A host where the key of the current version exists in the default view and has no
  \<^verbatim>\<open>JavaHome\<close> value: the query answers \<^verbatim>\<open>ERROR_FILE_NOT_FOUND\<close> and touches neither
  the buffer nor the size. Fresh heap memory is zero.
\<close>

definition dangling_host :: world where
  "dangling_host = bare_host
     \<lparr>RegOpenKeyExA := (\<lambda>keyPath sam.
         if sam = KEY_READ \<and> keyPath = jre_key then (ERROR_SUCCESS, 11)
         else if sam = KEY_READ \<and> keyPath = join_path jre_key ''1.7'' then (ERROR_SUCCESS, 12)
         else (ERROR_FILE_NOT_FOUND, 0)),
      RegQueryValueExA := (\<lambda>key name sz.
         if key = 11 \<and> name = ''CurrentVersion'' then (ERROR_SUCCESS, 4, Some (''1.7'' @ [NUL]))
         else (ERROR_FILE_NOT_FOUND, sz, None))\<rparr>"

text \<open>
  The same host when the current directory of the process holds \<^verbatim>\<open>bin\java.exe\<close>, a
  launcher that runs.
\<close>

definition dangling_cwd_host :: world where
  "dangling_cwd_host = dangling_host
     \<lparr>fileExists := (\<lambda>r p. p = launcher_under []),
      execWait := (\<lambda>r cmd. 0)\<rparr>"

text \<open>
  A host where a key \<^verbatim>\<open>K\<close> has a value \<^verbatim>\<open>V\<close> of \<open>n\<close> bytes: a read with a smaller buffer
  answers \<^verbatim>\<open>ERROR_MORE_DATA\<close> and reports \<open>n\<close>.
\<close>

definition sized_host :: "nat \<Rightarrow> world" where
  "sized_host n = bare_host
     \<lparr>RegOpenKeyExA := (\<lambda>keyPath sam. if keyPath = ''K'' then (ERROR_SUCCESS, 5)
                                       else (ERROR_FILE_NOT_FOUND, 0)),
      RegQueryValueExA := (\<lambda>key name sz.
         if key = 5 \<and> name = ''V''
         then (if unat sz < n then (ERROR_MORE_DATA, of_nat n, None)
               else (ERROR_SUCCESS, of_nat n, Some (replicate (n - 1) (CHR ''v'') @ [NUL])))
         else (ERROR_FILE_NOT_FOUND, sz, None))\<rparr>"

text \<open>
  A host where the pipe and the process are created, with process handle 3, and the
  process exits with 0.
\<close>

definition spawn_host :: world where
  "spawn_host = bare_host
     \<lparr>CreatePipe := True,
      CreateProcessA := (\<lambda>cmd. if cmd = version_cmd ''java.exe'' then Some 3 else None),
      GetExitCodeProcess := (\<lambda>h. if h = 3 then Some 0 else None)\<rparr>"

text \<open>
  A 64-bit host where a launcher is found wherever one is looked for, and every launcher
  exits with 1. \<^verbatim>\<open>JAVA_HOME\<close> is \<^verbatim>\<open>J:\<close> and \<^verbatim>\<open>PATH\<close> is \<^verbatim>\<open>X:;Y:\<close>; in every view of the
  registry the runtime environment has \<^verbatim>\<open>CurrentVersion\<close> \<^verbatim>\<open>1.7\<close> and \<^verbatim>\<open>JavaHome\<close> \<^verbatim>\<open>R:\<close>;
  \<^verbatim>\<open>P:\Java\<close> holds \<^verbatim>\<open>jdk1.8\<close> and \<^verbatim>\<open>jre1.6\<close>.
\<close>

definition rejecting_host :: world where
  "rejecting_host = bare_host
     \<lparr>getenv := (\<lambda>name. if name = ''JAVA_HOME'' then Some ''J:''
                       else if name = ''PATH'' then Some ''X:;Y:'' else None),
      fileExists := (\<lambda>r p. True),
      execWait := (\<lambda>r cmd. 1),
      RegOpenKeyExA := (\<lambda>keyPath sam.
         if keyPath = jre_key then (ERROR_SUCCESS, 11)
         else if keyPath = join_path jre_key ''1.7'' then (ERROR_SUCCESS, 12)
         else (ERROR_FILE_NOT_FOUND, 0)),
      RegQueryValueExA := (\<lambda>key name sz.
         if key = 11 \<and> name = ''CurrentVersion'' then (ERROR_SUCCESS, 4, Some (''1.7'' @ [NUL]))
         else if key = 12 \<and> name = ''JavaHome'' then (ERROR_SUCCESS, 3, Some (''R:'' @ [NUL]))
         else (ERROR_FILE_NOT_FOUND, sz, None)),
      SHGetFolderPathA := (\<lambda>r. Some ''P:''),
      dirExists := (\<lambda>r p. p = join_path ''P:'' ''Java''),
      FindFileA := (\<lambda>r pattern.
                      if pattern = join_path (join_path ''P:'' ''Java'') ''j*''
                      then [jdk_entry, jre_entry] else []),
      wProcessorArchitecture := PROCESSOR_ARCHITECTURE_AMD64\<rparr>"

section \<open>Properties\<close>

lemma checkPath_eq:
  "checkPath w st d =
     (fileExists w Suppressed (addPath w d ''java.exe'')
        \<and> execWait w Suppressed (version_cmd (addPath w d ''java.exe'')) = 0,
      addPath w d ''java.exe'',
      st\<lparr>probes := probes st @
           (if fileExists w Suppressed (addPath w d ''java.exe'')
            then [FileExists (addPath w d ''java.exe''),
                  ExecWait (version_cmd (addPath w d ''java.exe''))]
            else [FileExists (addPath w d ''java.exe'')])\<rparr>)"
  by (simp add: checkPath_def disableWow64FsRedirection_def revertWow64FsRedirection_def
      probed_def Let_def)

lemma checkBinPath_eq:
  "checkBinPath w st d =
     (fileExists w Suppressed (addPath w (addPath w d ''bin'') ''java.exe'')
        \<and> execWait w Suppressed
              (version_cmd (addPath w (addPath w d ''bin'') ''java.exe'')) = 0,
      addPath w (addPath w d ''bin'') ''java.exe'',
      st\<lparr>probes := probes st @
           (if fileExists w Suppressed (addPath w (addPath w d ''bin'') ''java.exe'')
            then [FileExists (addPath w (addPath w d ''bin'') ''java.exe''),
                  ExecWait (version_cmd (addPath w (addPath w d ''bin'') ''java.exe''))]
            else [FileExists (addPath w (addPath w d ''bin'') ''java.exe'')])\<rparr>)"
  by (simp add: checkBinPath_def checkPath_eq)

lemmas host_defs =
  env_host_def path_host_def pf_host_def pf64_host_def pf64_mixed_host_def view32_host_def
  dangling_host_def
  dangling_cwd_host_def sized_host_def spawn_host_def rejecting_host_def
  bare_host_def fresh_def join_path_def version_cmd_def jdk_entry_def jre_entry_def
  launcher_under_def jre_key_def JavaSoft_def

subsection \<open>The executability check\<close>

text \<open>
  C8. \<^verbatim>\<open>checkPath\<close> appends \<^verbatim>\<open>java.exe\<close> to the directory. If that file does not exist
  the result is false, and the only call made is the existence test. If it exists, the
  command line \<^verbatim>\<open>"<path>" -version\<close> is run, and the result is true exactly when
  \<^verbatim>\<open>execWait\<close> returns 0. Both calls are made with the redirection suppressed.
  \<^verbatim>\<open>checkBinPath\<close> is \<^verbatim>\<open>checkPath\<close> on the directory with \<^verbatim>\<open>bin\<close> appended.
\<close>

theorem checkPath_runs_launcher:
  "checkPath w st d =
     (let p = addPath w d ''java.exe'' in
        if fileExists w Suppressed p
        then (execWait w Suppressed (version_cmd p) = 0, p,
              st\<lparr>probes := probes st @ [FileExists p, ExecWait (version_cmd p)]\<rparr>)
        else (False, p, st\<lparr>probes := probes st @ [FileExists p]\<rparr>))
   \<and> checkBinPath w st d = checkPath w st (addPath w d ''bin'')"
  by (simp add: checkPath_eq checkBinPath_def Let_def)

theorem checkPath_runs_launcher_witness:
  "checkBinPath env_host fresh ''J:'' =
     (True, ''J:'' @ [CHR 0x5C] @ ''bin'' @ [CHR 0x5C] @ ''java.exe'',
      fresh\<lparr>probes :=
        [FileExists (''J:'' @ [CHR 0x5C] @ ''bin'' @ [CHR 0x5C] @ ''java.exe''),
         ExecWait ([CHR 0x22] @ ''J:'' @ [CHR 0x5C] @ ''bin'' @ [CHR 0x5C] @ ''java.exe''
                   @ [CHR 0x22] @ '' -version'')]\<rparr>)
   \<and> fst (checkPath env_host fresh ''Y:'') = False
   \<and> checkPath env_host fresh ''X:'' =
       (False, ''X:'' @ [CHR 0x5C] @ ''java.exe'',
        fresh\<lparr>probes := [FileExists (''X:'' @ [CHR 0x5C] @ ''java.exe'')]\<rparr>)"
  using checkPath_runs_launcher [of env_host fresh "''J:''"]
    checkPath_runs_launcher [of env_host fresh "join_path ''J:'' ''bin''"]
    checkPath_runs_launcher [of env_host fresh "''Y:''"]
    checkPath_runs_launcher [of env_host fresh "''X:''"]
  by (simp add: host_defs Let_def)

subsection \<open>The environment\<close>

lemma findJavaInEnvPath_loop_find:
  "(fst (findJavaInEnvPath_loop w st paths out),
    fst (snd (findJavaInEnvPath_loop w st paths out))) =
     (case List.find (\<lambda>e. fst (checkPath w st0 e)) paths of
        None \<Rightarrow> (False, out)
      | Some e \<Rightarrow> (True, addPath w e ''java.exe''))"
proof (induction paths arbitrary: st)
  case Nil
  show ?case by simp
next
  case (Cons e paths)
  show ?case
    using Cons.IH by (simp add: checkPath_eq)
qed

text \<open>
  C5. When \<^verbatim>\<open>JAVA_HOME\<close> is set and \<^verbatim>\<open>checkBinPath\<close> accepts it, \<^verbatim>\<open>findJavaInEnvPath\<close>
  returns true with the path \<^verbatim>\<open><JAVA_HOME>\bin\java.exe\<close>. The calls it has made are the
  existence test and the run of that one launcher: \<^verbatim>\<open>PATH\<close> is not split and none of its
  entries is looked at, whatever it holds.
\<close>

theorem findJavaInEnvPath_JAVA_HOME_first:
  assumes "getenv w ''JAVA_HOME'' = Some home"
    and "fst (checkBinPath w st home)"
  shows "findJavaInEnvPath w st out =
           (let p = addPath w (addPath w home ''bin'') ''java.exe'' in
              (True, p, st\<lparr>probes := probes st @ [FileExists p, ExecWait (version_cmd p)]\<rparr>))"
  using assms by (simp add: findJavaInEnvPath_def checkBinPath_eq Let_def)

theorem findJavaInEnvPath_JAVA_HOME_first_witness:
  "getenv env_host ''JAVA_HOME'' = Some ''J:''
   \<and> getenv env_host ''PATH'' = Some ''X:;Y:;Z:''
   \<and> fst (checkBinPath env_host fresh ''J:'')
   \<and> fst (checkPath env_host fresh ''Z:'')
   \<and> findJavaInEnvPath env_host fresh [] =
       (True, ''J:'' @ [CHR 0x5C] @ ''bin'' @ [CHR 0x5C] @ ''java.exe'',
        fresh\<lparr>probes :=
          [FileExists (''J:'' @ [CHR 0x5C] @ ''bin'' @ [CHR 0x5C] @ ''java.exe''),
           ExecWait (version_cmd
             (''J:'' @ [CHR 0x5C] @ ''bin'' @ [CHR 0x5C] @ ''java.exe''))]\<rparr>)"
proof -
  have home: "getenv env_host ''JAVA_HOME'' = Some ''J:''"
    by (simp add: host_defs)
  have ok: "fst (checkBinPath env_host fresh ''J:'')"
    by (simp add: checkBinPath_eq host_defs)
  have other: "fst (checkPath env_host fresh ''Z:'')"
    by (simp add: checkPath_eq host_defs)
  show ?thesis
    using findJavaInEnvPath_JAVA_HOME_first [OF home ok, of "[]"] home ok other
    by (simp add: host_defs Let_def)
qed

text \<open>
  C6. When \<^verbatim>\<open>JAVA_HOME\<close> is unset, or \<^verbatim>\<open>checkBinPath\<close> rejects it, the result is decided
  by \<^verbatim>\<open>PATH\<close>: the variable is split at \<^verbatim>\<open>;\<close>, and the first entry of the list that
  \<^verbatim>\<open>checkPath\<close> (the check without \<^verbatim>\<open>bin\<close>) accepts is returned, as
  \<^verbatim>\<open><entry>\java.exe\<close>. When no entry is accepted, or \<^verbatim>\<open>PATH\<close> is unset, the result is
  false and the out-parameter keeps its value.
\<close>

theorem findJavaInEnvPath_PATH_first_match:
  assumes "\<forall>home. getenv w ''JAVA_HOME'' = Some home \<longrightarrow> \<not> fst (checkBinPath w st home)"
  shows "(fst (findJavaInEnvPath w st out), fst (snd (findJavaInEnvPath w st out))) =
           (case getenv w ''PATH'' of
              None \<Rightarrow> (False, out)
            | Some envPath \<Rightarrow>
                (case List.find (\<lambda>e. fst (checkPath w st e)) (split w envPath (CHR '';'')) of
                   None \<Rightarrow> (False, out)
                 | Some e \<Rightarrow> (True, addPath w e ''java.exe'')))"
proof (cases "getenv w ''JAVA_HOME''")
  case None
  then show ?thesis
    by (simp add: findJavaInEnvPath_def findJavaInEnvPath_loop_find [where ?st0.0 = st]
        split: option.splits)
next
  case (Some home)
  with assms have no: "\<not> fst (checkBinPath w st home)" by simp
  obtain b p st1 where c: "checkBinPath w st home = (b, p, st1)"
    by (cases "checkBinPath w st home") auto
  with no have "\<not> b" by simp
  with Some c show ?thesis
    by (simp add: findJavaInEnvPath_def findJavaInEnvPath_loop_find [where ?st0.0 = st]
        split: option.splits)
qed

theorem findJavaInEnvPath_PATH_first_match_witness:
  "getenv path_host ''JAVA_HOME'' = Some ''Q:''
   \<and> \<not> fst (checkBinPath path_host fresh ''Q:'')
   \<and> getenv path_host ''PATH'' = Some ''X:;Y:;Z:''
   \<and> split path_host ''X:;Y:;Z:'' (CHR '';'') = [''X:'', ''Y:'', ''Z:'']
   \<and> \<not> fst (checkPath path_host fresh ''X:'')
   \<and> \<not> fst (checkPath path_host fresh ''Y:'')
   \<and> fst (checkPath path_host fresh ''Z:'')
   \<and> (fst (findJavaInEnvPath path_host fresh []),
       fst (snd (findJavaInEnvPath path_host fresh [])))
       = (True, ''Z:'' @ [CHR 0x5C] @ ''java.exe'')"
proof -
  have h: "\<forall>home. getenv path_host ''JAVA_HOME'' = Some home
             \<longrightarrow> \<not> fst (checkBinPath path_host fresh home)"
    by (simp add: checkBinPath_eq host_defs)
  have s: "split path_host ''X:;Y:;Z:'' (CHR '';'') = [''X:'', ''Y:'', ''Z:'']"
    by (simp add: host_defs)
  show ?thesis
    using findJavaInEnvPath_PATH_first_match [OF h, of "[]"] s
    by (simp add: checkPath_eq checkBinPath_eq host_defs)
qed

subsection \<open>Program Files\<close>

lemma checkBinPath_wow64: "wow64 (snd (snd (checkBinPath w st d))) = wow64 st"
  by (simp add: checkBinPath_eq)

lemma checkBinPath_next_count:
  "filter (\<lambda>e. e = FindNextFile) (probes (snd (snd (checkBinPath w st d)))) =
   filter (\<lambda>e. e = FindNextFile) (probes st)"
  by (simp add: checkBinPath_eq)

lemma checkProgramFiles_body_eq:
  "checkProgramFiles_body w path fd (found, out, st) =
     (if dwFileAttributes fd AND FILE_ATTRIBUTE_DIRECTORY \<noteq> 0
         \<and> fst (checkBinPath w st0 (addPath w path (cFileName fd)))
      then (True, addPath w (addPath w (addPath w path (cFileName fd)) ''bin'') ''java.exe'',
            snd (snd (checkBinPath w st (addPath w path (cFileName fd)))))
      else (found, out,
            if dwFileAttributes fd AND FILE_ATTRIBUTE_DIRECTORY \<noteq> 0
            then snd (snd (checkBinPath w st (addPath w path (cFileName fd))))
            else st))"
  by (simp add: checkProgramFiles_body_def checkBinPath_eq)

lemma checkProgramFiles_loop_find:
  "(fst (checkProgramFiles_loop w path fd rest (False, out, st)),
    fst (snd (checkProgramFiles_loop w path fd rest (False, out, st)))) =
     (case List.find (\<lambda>fd. dwFileAttributes fd AND FILE_ATTRIBUTE_DIRECTORY \<noteq> 0
                           \<and> fst (checkBinPath w st0 (addPath w path (cFileName fd))))
             (fd # rest) of
        None \<Rightarrow> (False, out)
      | Some fd \<Rightarrow>
          (True, addPath w (addPath w (addPath w path (cFileName fd)) ''bin'') ''java.exe''))"
proof (induction rest arbitrary: fd st)
  case Nil
  show ?case by (simp add: checkProgramFiles_body_eq [where ?st0.0 = st0])
next
  case (Cons nxt rest)
  show ?case
    using Cons.IH by (simp add: checkProgramFiles_body_eq [where ?st0.0 = st0])
qed

lemma checkProgramFiles_loop_next_count:
  "length (filter (\<lambda>e. e = FindNextFile)
       (probes (snd (snd (checkProgramFiles_loop w path fd rest (False, out, st)))))) =
   length (filter (\<lambda>e. e = FindNextFile) (probes st)) +
   length (takeWhile (\<lambda>fd. \<not> (dwFileAttributes fd AND FILE_ATTRIBUTE_DIRECTORY \<noteq> 0
                           \<and> fst (checkBinPath w st0 (addPath w path (cFileName fd)))))
             (fd # rest))"
proof (induction rest arbitrary: fd st)
  case Nil
  show ?case
    by (simp add: checkProgramFiles_body_eq [where ?st0.0 = st0] checkBinPath_next_count
        probed_def)
next
  case (Cons nxt rest)
  show ?case
    using Cons.IH
    by (simp add: checkProgramFiles_body_eq [where ?st0.0 = st0] checkBinPath_next_count
        probed_def)
qed

lemma accepted_dir_indep: "accepted_dir w st path = accepted_dir w st' path"
  by (rule ext) (simp add: accepted_dir_def checkBinPath_eq)

lemma first_accepted_indep: "first_accepted w st r = first_accepted w st' r"
  unfolding first_accepted_def by (subst accepted_dir_indep [of w st _ st']) (rule refl)

lemma rejected_before_indep: "rejected_before w st r = rejected_before w st' r"
  unfolding rejected_before_def by (subst accepted_dir_indep [of w st _ st']) (rule refl)

lemma checkProgramFiles_result:
  "(fst (checkProgramFiles w st out), fst (snd (checkProgramFiles w st out))) =
     (case first_accepted w st0 (wow64 st) of None \<Rightarrow> (False, out) | Some p \<Rightarrow> (True, p))"
proof (cases "SHGetFolderPathA w (wow64 st)")
  case None
  then show ?thesis
    by (simp add: checkProgramFiles_def first_accepted_def)
next
  case (Some pf)
  show ?thesis
  proof (cases "dirExists w (wow64 st) (addPath w pf ''Java'')")
    case False
    with Some show ?thesis
      by (simp add: checkProgramFiles_def first_accepted_def Let_def)
  next
    case True
    show ?thesis
    proof (cases "FindFileA w (wow64 st) (addPath w (addPath w pf ''Java'') ''j*'')")
      case Nil
      with Some True show ?thesis
        by (simp add: checkProgramFiles_def first_accepted_def Let_def)
    next
      case (Cons fd rest)
      have acc: "accepted_dir w st0 (addPath w pf ''Java'') =
                 (\<lambda>fd. dwFileAttributes fd AND FILE_ATTRIBUTE_DIRECTORY \<noteq> 0
                   \<and> fst (checkBinPath w st0 (addPath w (addPath w pf ''Java'') (cFileName fd))))"
        by (rule ext) (simp add: accepted_dir_def)
      from Some True Cons show ?thesis
        by (simp only: checkProgramFiles_def first_accepted_def Let_def option.case list.case
            if_True if_False not_True_eq_False acc
            checkProgramFiles_loop_find [where ?st0.0 = st0])
           (simp split: option.splits)
    qed
  qed
qed

lemma checkProgramFiles_next_calls:
  "next_calls (snd (snd (checkProgramFiles w st out))) =
     next_calls st + rejected_before w st0 (wow64 st)"
proof (cases "SHGetFolderPathA w (wow64 st)")
  case None
  then show ?thesis
    by (simp add: checkProgramFiles_def rejected_before_def next_calls_def probed_def)
next
  case (Some pf)
  show ?thesis
  proof (cases "dirExists w (wow64 st) (addPath w pf ''Java'')")
    case False
    with Some show ?thesis
      by (simp add: checkProgramFiles_def rejected_before_def next_calls_def probed_def Let_def)
  next
    case True
    show ?thesis
    proof (cases "FindFileA w (wow64 st) (addPath w (addPath w pf ''Java'') ''j*'')")
      case Nil
      with Some True show ?thesis
        by (simp add: checkProgramFiles_def rejected_before_def next_calls_def probed_def Let_def)
    next
      case (Cons fd rest)
      have acc: "(\<lambda>fd. \<not> accepted_dir w st0 (addPath w pf ''Java'') fd) =
                 (\<lambda>fd. \<not> (dwFileAttributes fd AND FILE_ATTRIBUTE_DIRECTORY \<noteq> 0
                   \<and> fst (checkBinPath w st0 (addPath w (addPath w pf ''Java'') (cFileName fd)))))"
        by (rule ext) (simp add: accepted_dir_def)
      have cnt: "filter (\<lambda>e. e = FindNextFile)
                   (probes (probed (FindFirstFile g) (probed (DirExists d) (probed FolderPath st)))) =
                 filter (\<lambda>e. e = FindNextFile) (probes st)" for g d
        by (simp add: probed_def)
      from Some True Cons show ?thesis
        by (simp only: checkProgramFiles_def rejected_before_def next_calls_def Let_def
            option.case list.case if_True if_False not_True_eq_False acc cnt
            checkProgramFiles_loop_next_count [where ?st0.0 = st0])
    qed
  qed
qed


text \<open>
  C1, as the code has it. One pass, \<^verbatim>\<open>checkProgramFiles\<close>, returns the FIRST entry of
  the enumeration of \<^verbatim>\<open>j*\<close> that is a directory and that \<^verbatim>\<open>checkBinPath\<close> accepts, as
  \<^verbatim>\<open><dir>\bin\java.exe\<close>; with no such entry, or no \<^verbatim>\<open>Program Files\Java\<close>, it returns
  false and leaves the out-parameter alone. The enumeration stops there:
  \<^verbatim>\<open>FindNextFileA\<close> is called once for each entry before the first accepted one, and
  never after it. \<^verbatim>\<open>findJavaInProgramFiles\<close> returns what the pass delivers in the view
  it is called in; when that pass finds nothing and the host is AMD64, it returns what
  the pass delivers with the redirection suppressed, again the first accepted entry of
  that enumeration; otherwise it returns false.
\<close>

theorem findJavaInProgramFiles_first_match:
  "(fst (checkProgramFiles w st out), fst (snd (checkProgramFiles w st out))) =
     (case first_accepted w st (wow64 st) of None \<Rightarrow> (False, out) | Some p \<Rightarrow> (True, p))
   \<and> next_calls (snd (snd (checkProgramFiles w st out))) =
       next_calls st + rejected_before w st (wow64 st)
   \<and> (fst (findJavaInProgramFiles w st out), fst (snd (findJavaInProgramFiles w st out))) =
       (case first_accepted w st (wow64 st) of
          Some p \<Rightarrow> (True, p)
        | None \<Rightarrow>
            if wProcessorArchitecture w = PROCESSOR_ARCHITECTURE_AMD64
            then (case first_accepted w st Suppressed of
                    None \<Rightarrow> (False, out)
                  | Some p \<Rightarrow> (True, p))
            else (False, out))
   \<and> next_calls (snd (snd (findJavaInProgramFiles w st out))) =
       next_calls st + rejected_before w st (wow64 st) +
       (if first_accepted w st (wow64 st) = None
           \<and> wProcessorArchitecture w = PROCESSOR_ARCHITECTURE_AMD64
        then rejected_before w st Suppressed else 0)"
proof -
  obtain found p st1 where c1: "checkProgramFiles w st out = (found, p, st1)"
    by (cases "checkProgramFiles w st out") auto
  have r1: "(found, p) =
      (case first_accepted w st (wow64 st) of None \<Rightarrow> (False, out) | Some q \<Rightarrow> (True, q))"
    using checkProgramFiles_result [of w st out st] by (simp add: c1)
  have n1: "next_calls st1 = next_calls st + rejected_before w st (wow64 st)"
    using checkProgramFiles_next_calls [of w st out st] by (simp add: c1)
  let ?st2 = "st1\<lparr>wow64 := Suppressed\<rparr>"
  obtain found' p' st3 where c2: "checkProgramFiles w ?st2 out = (found', p', st3)"
    by (cases "checkProgramFiles w ?st2 out") auto
  have r2: "(found', p') =
      (case first_accepted w st Suppressed of None \<Rightarrow> (False, out) | Some q \<Rightarrow> (True, q))"
    using checkProgramFiles_result [of w ?st2 out st] by (simp add: c2)
  have n2: "next_calls st3 = next_calls st1 + rejected_before w st Suppressed"
    using checkProgramFiles_next_calls [of w ?st2 out st] by (simp add: c2 next_calls_def)
  show ?thesis
  proof (cases "first_accepted w st (wow64 st)")
    case (Some q)
    with r1 have "found" "p = q" by auto
    with Some n1 r1 show ?thesis
      by (simp add: findJavaInProgramFiles_def c1)
  next
    case None
    with r1 have nf: "\<not> found" "p = out" by auto
    show ?thesis
    proof (cases "wProcessorArchitecture w = PROCESSOR_ARCHITECTURE_AMD64")
      case False
      with None nf n1 show ?thesis
        by (simp add: findJavaInProgramFiles_def c1)
    next
      case True
      have run: "findJavaInProgramFiles w st out = (found', p', st3\<lparr>wow64 := wow64 st1\<rparr>)"
        using True nf
        by (simp add: findJavaInProgramFiles_def c1 c2 disableWow64FsRedirection_def
            revertWow64FsRedirection_def)
      have keep: "next_calls (st3\<lparr>wow64 := wow64 st1\<rparr>) = next_calls st3"
        by (simp add: next_calls_def)
      from None nf True n1 n2 r2 show ?thesis
        by (simp add: run keep c1 split: option.splits)
    qed
  qed
qed

theorem findJavaInProgramFiles_first_match_witness:
  "first_accepted pf_host fresh Redirected =
     Some (launcher_under (join_path (join_path ''P:'' ''Java'') ''jdk1.8''))
   \<and> (fst (findJavaInProgramFiles pf_host fresh []),
       fst (snd (findJavaInProgramFiles pf_host fresh []))) =
      (True, launcher_under (join_path (join_path ''P:'' ''Java'') ''jdk1.8''))
   \<and> next_calls (snd (snd (findJavaInProgramFiles pf_host fresh []))) = 0
   \<and> wProcessorArchitecture pf64_mixed_host = PROCESSOR_ARCHITECTURE_AMD64
   \<and> first_accepted pf64_mixed_host fresh Redirected = None
   \<and> rejected_before pf64_mixed_host fresh Redirected = 0
   \<and> first_accepted pf64_mixed_host fresh Suppressed =
       Some (launcher_under (join_path (join_path ''P:'' ''Java'') ''jdk1.8''))
   \<and> rejected_before pf64_mixed_host fresh Suppressed = 2
   \<and> (fst (findJavaInProgramFiles pf64_mixed_host fresh []),
       fst (snd (findJavaInProgramFiles pf64_mixed_host fresh []))) =
      (True, launcher_under (join_path (join_path ''P:'' ''Java'') ''jdk1.8''))
   \<and> next_calls (snd (snd (findJavaInProgramFiles pf64_mixed_host fresh []))) = 2"
proof -
  have a1: "first_accepted pf_host fresh Redirected =
              Some (launcher_under (join_path (join_path ''P:'' ''Java'') ''jdk1.8''))"
    by (simp add: first_accepted_def accepted_dir_def checkBinPath_eq host_defs
        FILE_ATTRIBUTE_DIRECTORY_def)
  have b1: "rejected_before pf_host fresh Redirected = 0"
    by (simp add: rejected_before_def accepted_dir_def checkBinPath_eq host_defs
        FILE_ATTRIBUTE_DIRECTORY_def)
  have arch: "wProcessorArchitecture pf64_mixed_host = PROCESSOR_ARCHITECTURE_AMD64"
    by (simp add: host_defs)
  have a2: "first_accepted pf64_mixed_host fresh Redirected = None"
    by (simp add: first_accepted_def host_defs)
  have b2: "rejected_before pf64_mixed_host fresh Redirected = 0"
    by (simp add: rejected_before_def host_defs)
  have a3: "first_accepted pf64_mixed_host fresh Suppressed =
              Some (launcher_under (join_path (join_path ''P:'' ''Java'') ''jdk1.8''))"
    by (simp add: first_accepted_def accepted_dir_def checkBinPath_eq host_defs
        FILE_ATTRIBUTE_DIRECTORY_def)
  have b3: "rejected_before pf64_mixed_host fresh Suppressed = 2"
    by (simp add: rejected_before_def accepted_dir_def checkBinPath_eq host_defs
        FILE_ATTRIBUTE_DIRECTORY_def)
  have n0: "next_calls fresh = 0" "wow64 fresh = Redirected"
    by (simp_all add: next_calls_def fresh_def)
  show ?thesis
    using findJavaInProgramFiles_first_match [of pf_host fresh "[]"]
      findJavaInProgramFiles_first_match [of pf64_mixed_host fresh "[]"]
    by (simp add: a1 b1 arch a2 b2 a3 b3 n0)
qed

text \<open>
  C1, as the spec has it, fails: on a host where \<^verbatim>\<open>jdk1.8\<close> and then \<^verbatim>\<open>jre1.6\<close> are
  delivered, and both are accepted by \<^verbatim>\<open>checkBinPath\<close>, the path returned is that of
  \<^verbatim>\<open>jdk1.8\<close>, not that of the last one, and \<^verbatim>\<open>FindNextFileA\<close> is never called.
\<close>

theorem findJavaInProgramFiles_last_match_counterexample:
  "FindFileA pf_host Redirected (join_path (join_path ''P:'' ''Java'') ''j*'')
     = [jdk_entry, jre_entry]
   \<and> fst (checkBinPath pf_host fresh (join_path (join_path ''P:'' ''Java'') ''jdk1.8''))
   \<and> fst (checkBinPath pf_host fresh (join_path (join_path ''P:'' ''Java'') ''jre1.6''))
   \<and> fst (findJavaInProgramFiles pf_host fresh [])
   \<and> fst (snd (findJavaInProgramFiles pf_host fresh [])) =
       launcher_under (join_path (join_path ''P:'' ''Java'') ''jdk1.8'')
   \<and> fst (snd (findJavaInProgramFiles pf_host fresh [])) \<noteq>
       launcher_under (join_path (join_path ''P:'' ''Java'') ''jre1.6'')
   \<and> FindNextFile \<notin> set (probes (snd (snd (findJavaInProgramFiles pf_host fresh []))))"
  by (simp add: findJavaInProgramFiles_def checkProgramFiles_def checkProgramFiles_body_def
      checkBinPath_eq probed_def Let_def host_defs FILE_ATTRIBUTE_DIRECTORY_def)

subsection \<open>The registry\<close>

lemma getRegValue_loop_exit:
  "\<not> (ret = ERROR_MORE_DATA \<and> sz < 65536) \<Longrightarrow>
     getRegValue_loop w key keyName (ret, sz, buffer, st) = Some (ret, sz, buffer, st)"
  by (subst getRegValue_loop.simps) auto


lemma getRegValue_loop_done:
  "ret = ERROR_MORE_DATA \<Longrightarrow> sz < 65536 \<Longrightarrow>
   RegQueryValueExA w key keyName sz = (ret', sz', bytes) \<Longrightarrow> ret' \<noteq> ERROR_MORE_DATA \<Longrightarrow>
     getRegValue_loop w key keyName (ret, sz, buffer, st) =
     Some (ret', sz',
           store_nul (copied buffer bytes) (unat sz') (probed (RegQuery key keyName sz) st))"
  by (subst getRegValue_loop.simps)
     (simp add: Let_def getRegValue_loop_exit split: prod.splits)

lemma getRegValue_open_fails:
  "fst (RegOpenKeyExA w keyPath (KEY_READ OR access)) \<noteq> ERROR_SUCCESS \<Longrightarrow>
     getRegValue w st keyPath keyName access out =
       Some (False, out, probed (RegOpen keyPath (KEY_READ OR access)) st)"
  by (cases "RegOpenKeyExA w keyPath (KEY_READ OR access)") (simp add: getRegValue_def Let_def)

lemma getRegValue_first_read:
  assumes o: "RegOpenKeyExA w keyPath (KEY_READ OR access) = (ERROR_SUCCESS, key)"
    and q: "RegQueryValueExA w key keyName 4096 = (ret, sz, bytes)"
    and ret: "ret \<noteq> ERROR_MORE_DATA"
  shows "getRegValue w st keyPath keyName access out =
           Some (True,
             c_str (fst (store_nul (copied (malloc w 4096) bytes) (unat sz)
                      (probed (RegQuery key keyName 4096)
                         (probed (RegOpen keyPath (KEY_READ OR access)) st)))),
             snd (store_nul (copied (malloc w 4096) bytes) (unat sz)
                      (probed (RegQuery key keyName 4096)
                         (probed (RegOpen keyPath (KEY_READ OR access)) st))))"
  using o ret
  by (simp add: getRegValue_def Let_def getRegValue_loop_done [OF refl _ q] split: prod.splits)

lemma length_malloc: "length (malloc w n) = n"
  by (simp add: malloc_def)

lemma c_str_fresh: "0 < n \<Longrightarrow> heap_byte w 0 = NUL \<Longrightarrow> c_str (malloc w n) = []"
  by (simp add: c_str_def malloc_def upt_conv_Cons)

lemma c_str_store_nul:
  assumes "NUL \<in> set d" and "length d \<le> length buffer" and "length d \<le> i"
  shows "c_str (fst (store_nul (copied buffer (Some d)) i st)) = c_str d"
proof -
  have cp: "copied buffer (Some d) = d @ drop (length d) buffer"
    using assms(2) by (simp add: copied_def)
  have tw: "takeWhile (\<lambda>c. c \<noteq> NUL) (d @ r) = takeWhile (\<lambda>c. c \<noteq> NUL) d" for r
    using assms(1) by (simp add: takeWhile_append1)
  show ?thesis
    using assms(3) by (simp add: store_nul_def cp c_str_def list_update_append tw del: takeWhile_append1)
qed

lemma snd_store_nul:
  "snd (store_nul buffer i st) = (if i < length buffer then st else st\<lparr>heap_overrun := True\<rparr>)"
  by (simp add: store_nul_def)

lemma length_copied: "length (copied buffer bytes) = length buffer"
  by (auto simp: copied_def split: option.splits)

lemma getRegValue_reads:
  assumes o: "RegOpenKeyExA w keyPath (KEY_READ OR access) = (ERROR_SUCCESS, key)"
    and q: "RegQueryValueExA w key keyName 4096 = (ret, sz, Some d)"
    and ret: "ret \<noteq> ERROR_MORE_DATA"
    and d: "NUL \<in> set d" "length d \<le> unat sz" "unat sz < 4096"
  shows "getRegValue w st keyPath keyName access out =
           Some (True, c_str d,
                 probed (RegQuery key keyName 4096)
                   (probed (RegOpen keyPath (KEY_READ OR access)) st))"
  using d
  by (simp add: getRegValue_first_read [OF o q ret] c_str_store_nul snd_store_nul
      length_copied length_malloc)

lemmas win_consts =
  ERROR_SUCCESS_def ERROR_MORE_DATA_def ERROR_FILE_NOT_FOUND_def KEY_READ_def
  KEY_WOW64_32KEY_def KEY_WOW64_64KEY_def PROCESSOR_ARCHITECTURE_AMD64_def

lemma findJavaInRegistry_first_validated:
  "findJavaInRegistry w st out = first_validated w (registry_order w) st out"
  by (simp add: findJavaInRegistry_def registry_order_def or_else_def
      split: option.splits prod.splits)

text \<open>
  C4. \<^verbatim>\<open>findJavaInRegistry\<close> is the run of \<^verbatim>\<open>exploreJavaRegistry\<close> along the list of the
  spec: the default view with the runtime environment and then the development kit, and,
  only when the native architecture is AMD64, the 32-bit view and then the 64-bit view,
  each with the runtime environment first. The run ends at the first lookup that is
  true; the process state of the result, with the registry calls made, is the state at
  that point, so no later combination has been tried.
\<close>

theorem findJavaInRegistry_order:
  "findJavaInRegistry w st out = first_validated w (registry_order w) st out"
  by (simp add: findJavaInRegistry_def registry_order_def or_else_def
      split: option.splits prod.splits)


theorem findJavaInRegistry_order_witness:
  "wProcessorArchitecture view32_host = PROCESSOR_ARCHITECTURE_AMD64
   \<and> findJavaInRegistry view32_host fresh [] =
       Some (True, launcher_under ''R:'',
         fresh\<lparr>probes :=
           [RegOpen (join_path JavaSoft ''Java Runtime Environment'') KEY_READ,
            RegOpen (join_path JavaSoft ''Java Development Kit'') KEY_READ,
            RegOpen (join_path JavaSoft ''Java Runtime Environment'') (KEY_READ OR KEY_WOW64_32KEY),
            RegQuery 11 ''CurrentVersion'' 4096,
            RegOpen (join_path (join_path JavaSoft ''Java Runtime Environment'') ''1.7'')
              (KEY_READ OR KEY_WOW64_32KEY),
            RegQuery 12 ''JavaHome'' 4096,
            FileExists (launcher_under ''R:''),
            ExecWait (version_cmd (launcher_under ''R:''))]\<rparr>)"
proof -
  have cv: "getRegValue view32_host st jre_key ''CurrentVersion'' KEY_WOW64_32KEY [] =
              Some (True, ''1.7'',
                probed (RegQuery 11 ''CurrentVersion'' 4096)
                  (probed (RegOpen jre_key (KEY_READ OR KEY_WOW64_32KEY)) st))" for st
    using getRegValue_reads [of view32_host jre_key KEY_WOW64_32KEY 11 "''CurrentVersion''"
        ERROR_SUCCESS 4 "''1.7'' @ [NUL]" st "[]"]
    by (simp add: view32_host_def bare_host_def win_consts c_str_def NUL_def)
  have jh: "getRegValue view32_host st (join_path jre_key ''1.7'') ''JavaHome'' KEY_WOW64_32KEY [] =
              Some (True, ''R:'',
                probed (RegQuery 12 ''JavaHome'' 4096)
                  (probed (RegOpen (join_path jre_key ''1.7'') (KEY_READ OR KEY_WOW64_32KEY)) st))" for st
    using getRegValue_reads [of view32_host "join_path jre_key ''1.7''" KEY_WOW64_32KEY 12
        "''JavaHome''" ERROR_SUCCESS 3 "''R:'' @ [NUL]" st "[]"]
    by (simp add: view32_host_def bare_host_def win_consts c_str_def NUL_def
        jre_key_def JavaSoft_def join_path_def)
  have no: "getRegValue view32_host st keyPath ''CurrentVersion'' 0 [] =
              Some (False, [], probed (RegOpen keyPath KEY_READ) st)" for st keyPath
    using getRegValue_open_fails [of view32_host keyPath 0 st "''CurrentVersion''" "[]"]
    by (simp add: view32_host_def bare_host_def win_consts)
  have ap: "addPath view32_host = join_path"
    by (simp add: view32_host_def bare_host_def)
  have arch: "wProcessorArchitecture view32_host = PROCESSOR_ARCHITECTURE_AMD64"
    by (simp add: view32_host_def bare_host_def)
  have chk: "checkBinPath view32_host st ''R:'' =
               (True, launcher_under ''R:'',
                st\<lparr>probes := probes st @
                  [FileExists (launcher_under ''R:''), ExecWait (version_cmd (launcher_under ''R:''))]\<rparr>)" for st
    by (simp add: checkBinPath_eq view32_host_def bare_host_def launcher_under_def)
  have jk: "join_path JavaSoft ''Java Runtime Environment'' = jre_key"
    by (simp add: jre_key_def)
  show ?thesis
    using findJavaInRegistry_order [of view32_host fresh "[]"]
    by (simp add: registry_order_def exploreJavaRegistry_def arch ap no jk cv jh chk
        probed_def fresh_def)
qed



lemma store_nul_wow64: "wow64 (snd (store_nul buffer i st)) = wow64 st"
  by (simp add: store_nul_def)











lemma getRegValue_missing_value:
  assumes o: "RegOpenKeyExA w keyPath (KEY_READ OR access) = (ERROR_SUCCESS, key)"
    and q: "RegQueryValueExA w key keyName 4096 = (ERROR_FILE_NOT_FOUND, 4096, None)"
    and zero: "heap_byte w 0 = NUL"
  shows "getRegValue w st keyPath keyName access out =
           Some (True, [],
             st\<lparr>probes := probes st @ [RegOpen keyPath (KEY_READ OR access),
                                         RegQuery key keyName 4096],
                heap_overrun := True\<rparr>)"
proof -
  have ret: "ERROR_FILE_NOT_FOUND \<noteq> ERROR_MORE_DATA"
    by (simp add: win_consts)
  show ?thesis
    by (simp add: getRegValue_first_read [OF o q ret] store_nul_def copied_def length_malloc
        c_str_fresh [OF _ zero] probed_def)
qed

lemma dangling_fields:
  "RegOpenKeyExA dangling_host jre_key (KEY_READ OR 0) = (ERROR_SUCCESS, 11)"
  "RegOpenKeyExA dangling_host (join_path jre_key ''1.7'') (KEY_READ OR 0) = (ERROR_SUCCESS, 12)"
  "RegQueryValueExA dangling_host 11 ''CurrentVersion'' 4096 =
     (ERROR_SUCCESS, 4, Some (''1.7'' @ [NUL]))"
  "RegQueryValueExA dangling_host 12 ''JavaHome'' 4096 = (ERROR_FILE_NOT_FOUND, 4096, None)"
  "heap_byte dangling_host 0 = NUL"
  "addPath dangling_host = join_path"
  by (simp_all add: host_defs)

lemma dangling_cwd_fields:
  "RegOpenKeyExA dangling_cwd_host jre_key (KEY_READ OR 0) = (ERROR_SUCCESS, 11)"
  "RegOpenKeyExA dangling_cwd_host (join_path jre_key ''1.7'') (KEY_READ OR 0) = (ERROR_SUCCESS, 12)"
  "RegQueryValueExA dangling_cwd_host 11 ''CurrentVersion'' 4096 =
     (ERROR_SUCCESS, 4, Some (''1.7'' @ [NUL]))"
  "RegQueryValueExA dangling_cwd_host 12 ''JavaHome'' 4096 = (ERROR_FILE_NOT_FOUND, 4096, None)"
  "heap_byte dangling_cwd_host 0 = NUL"
  "addPath dangling_cwd_host = join_path"
  by (simp_all add: host_defs)

text \<open>
  C2, at the input where the code departs from it. The key of the current version
  opens, and it has no \<^verbatim>\<open>JavaHome\<close> value: \<^verbatim>\<open>RegQueryValueExA\<close> answers
  \<^verbatim>\<open>ERROR_FILE_NOT_FOUND\<close>. \<^verbatim>\<open>getRegValue\<close> tests the answer against \<^verbatim>\<open>ERROR_MORE_DATA\<close>
  only, so it stores a NUL at \<^verbatim>\<open>buffer[4096]\<close>, one past the block, copies the bytes
  \<^verbatim>\<open>malloc\<close> left in the block into the out-parameter, and returns true.
  \<^verbatim>\<open>exploreJavaRegistry\<close> then goes on to check the launcher under that string: with a
  zeroed heap it looks for \<^verbatim>\<open>bin\java.exe\<close> relative to the current directory, and
  returns true when a launcher is there.
\<close>

theorem getRegValue_missing_value_reports_success:
  "RegOpenKeyExA dangling_host (join_path jre_key ''1.7'') (KEY_READ OR 0) = (ERROR_SUCCESS, 12)
   \<and> RegQueryValueExA dangling_host 12 ''JavaHome'' 4096 = (ERROR_FILE_NOT_FOUND, 4096, None)
   \<and> getRegValue dangling_host fresh (join_path jre_key ''1.7'') ''JavaHome'' 0 ''old'' =
       Some (True, [],
         fresh\<lparr>probes := [RegOpen (join_path jre_key ''1.7'') KEY_READ,
                           RegQuery 12 ''JavaHome'' 4096],
               heap_overrun := True\<rparr>)
   \<and> exploreJavaRegistry dangling_host ''Java Runtime Environment'' 0 fresh ''old'' =
       Some (False, ''old'',
         fresh\<lparr>probes := [RegOpen jre_key KEY_READ,
                           RegQuery 11 ''CurrentVersion'' 4096,
                           RegOpen (join_path jre_key ''1.7'') KEY_READ,
                           RegQuery 12 ''JavaHome'' 4096,
                           FileExists (''bin'' @ [CHR 0x5C] @ ''java.exe'')],
               heap_overrun := True\<rparr>)
   \<and> exploreJavaRegistry dangling_cwd_host ''Java Runtime Environment'' 0 fresh ''old'' =
       Some (True, ''bin'' @ [CHR 0x5C] @ ''java.exe'',
         fresh\<lparr>probes := [RegOpen jre_key KEY_READ,
                           RegQuery 11 ''CurrentVersion'' 4096,
                           RegOpen (join_path jre_key ''1.7'') KEY_READ,
                           RegQuery 12 ''JavaHome'' 4096,
                           FileExists (''bin'' @ [CHR 0x5C] @ ''java.exe''),
                           ExecWait (version_cmd (''bin'' @ [CHR 0x5C] @ ''java.exe''))],
               heap_overrun := True\<rparr>)"
proof -
  have ok: "ERROR_SUCCESS \<noteq> ERROR_MORE_DATA"
    by (simp add: win_consts)
  have jk: "join_path JavaSoft ''Java Runtime Environment'' = jre_key"
    by (simp add: jre_key_def)
  have v1: "getRegValue dangling_host st jre_key ''CurrentVersion'' 0 out =
              Some (True, ''1.7'',
                st\<lparr>probes := probes st @ [RegOpen jre_key KEY_READ,
                                            RegQuery 11 ''CurrentVersion'' 4096]\<rparr>)" for st out
    using getRegValue_reads [OF dangling_fields(1) dangling_fields(3) ok, of st out]
    by (simp add: c_str_def NUL_def probed_def)
  have v2: "getRegValue dangling_cwd_host st jre_key ''CurrentVersion'' 0 out =
              Some (True, ''1.7'',
                st\<lparr>probes := probes st @ [RegOpen jre_key KEY_READ,
                                            RegQuery 11 ''CurrentVersion'' 4096]\<rparr>)" for st out
    using getRegValue_reads [OF dangling_cwd_fields(1) dangling_cwd_fields(3) ok, of st out]
    by (simp add: c_str_def NUL_def probed_def)
  note h1 = getRegValue_missing_value [OF dangling_fields(2) dangling_fields(4) dangling_fields(5)]
  note h2 = getRegValue_missing_value
    [OF dangling_cwd_fields(2) dangling_cwd_fields(4) dangling_cwd_fields(5)]
  have c1: "checkBinPath dangling_host st [] =
              (False, ''bin'' @ [CHR 0x5C] @ ''java.exe'',
               st\<lparr>probes := probes st @ [FileExists (''bin'' @ [CHR 0x5C] @ ''java.exe'')]\<rparr>)" for st
    by (simp add: checkBinPath_eq host_defs)
  have c2: "checkBinPath dangling_cwd_host st [] =
              (True, ''bin'' @ [CHR 0x5C] @ ''java.exe'',
               st\<lparr>probes := probes st @ [FileExists (''bin'' @ [CHR 0x5C] @ ''java.exe''),
                   ExecWait (version_cmd (''bin'' @ [CHR 0x5C] @ ''java.exe''))]\<rparr>)" for st
    by (simp add: checkBinPath_eq host_defs)
  show ?thesis
    by (simp add: exploreJavaRegistry_def dangling_fields dangling_cwd_fields jk v1 v2 h1 h2
        c1 c2 fresh_def)
       (simp add: host_defs)
qed


subsection \<open>The version query\<close>

text \<open>
  C9. \<^verbatim>\<open>getJavaVersion\<close> leaves \<^verbatim>\<open>*version\<close> as it found it, whatever it returns. It
  returns true exactly when it has created the process \<^verbatim>\<open>"<path>" -version\<close>, waited
  for it, and read the exit code 0. The process is created only after the pipe: in
  terms of the calls, the result is true exactly when \<^verbatim>\<open>CreatePipe\<close> and
  \<^verbatim>\<open>CreateProcessA\<close> succeed and \<^verbatim>\<open>GetExitCodeProcess\<close> delivers 0.
\<close>

theorem getJavaVersion_boolean_only:
  "fst (snd (getJavaVersion w st javaPath version)) = version
   \<and> fst (getJavaVersion w st javaPath version) =
       (\<exists>hProcess.
          probes (snd (snd (getJavaVersion w st javaPath version))) =
            probes st @ [CreateProcess (version_cmd javaPath), WaitForSingleObject hProcess]
          \<and> CreateProcessA w (version_cmd javaPath) = Some hProcess
          \<and> GetExitCodeProcess w hProcess = Some 0)
   \<and> fst (getJavaVersion w st javaPath version) =
       (CreatePipe w
        \<and> (\<exists>hProcess. CreateProcessA w (version_cmd javaPath) = Some hProcess
              \<and> GetExitCodeProcess w hProcess = Some 0))"
  by (auto simp: getJavaVersion_def Let_def probed_def split: option.splits)

theorem getJavaVersion_boolean_only_witness:
  "getJavaVersion spawn_host fresh ''java.exe'' ''unset'' =
     (True, ''unset'',
      fresh\<lparr>probes := [CreateProcess (version_cmd ''java.exe''), WaitForSingleObject 3]\<rparr>)
   \<and> getJavaVersion bare_host fresh ''java.exe'' ''unset'' = (False, ''unset'', fresh)"
  using getJavaVersion_boolean_only [of spawn_host fresh "''java.exe''" "''unset''"]
    getJavaVersion_boolean_only [of bare_host fresh "''java.exe''" "''unset''"]
  by (simp add: getJavaVersion_def probed_def host_defs)

subsection \<open>The redirection guard\<close>

lemma findJavaInEnvPath_loop_wow64:
  "wow64 (snd (snd (findJavaInEnvPath_loop w st paths out))) = wow64 st"
  by (induction paths arbitrary: st) (simp_all add: checkPath_eq)

lemma findJavaInEnvPath_wow64:
  "wow64 (snd (snd (findJavaInEnvPath w st out))) = wow64 st"
  by (simp add: findJavaInEnvPath_def checkBinPath_eq findJavaInEnvPath_loop_wow64
      split: option.splits)

lemma checkProgramFiles_loop_wow64:
  "wow64 (snd (snd (checkProgramFiles_loop w path fd rest (found, out, st)))) = wow64 st"
proof (induction rest arbitrary: fd st found out)
  case Nil
  show ?case
    by (simp add: checkProgramFiles_body_eq [where ?st0.0 = st] checkBinPath_wow64 probed_def)
next
  case (Cons nxt rest)
  show ?case
    using Cons.IH
    by (simp add: checkProgramFiles_body_eq [where ?st0.0 = st] checkBinPath_wow64 probed_def)
qed

lemma checkProgramFiles_wow64:
  "wow64 (snd (snd (checkProgramFiles w st out))) = wow64 st"
  by (simp add: checkProgramFiles_def Let_def checkProgramFiles_loop_wow64 probed_def
      split: option.splits list.splits)

lemma findJavaInProgramFiles_wow64:
  "wow64 (snd (snd (findJavaInProgramFiles w st out))) = wow64 st"
proof -
  obtain found p st1 where c1: "checkProgramFiles w st out = (found, p, st1)"
    by (cases "checkProgramFiles w st out") auto
  have w1: "wow64 st1 = wow64 st"
    using checkProgramFiles_wow64 [of w st out] by (simp add: c1)
  obtain found' p' st3 where
    c2: "checkProgramFiles w (st1\<lparr>wow64 := Suppressed\<rparr>) p = (found', p', st3)"
    by (cases "checkProgramFiles w (st1\<lparr>wow64 := Suppressed\<rparr>) p") auto
  show ?thesis
    using w1
    by (simp add: findJavaInProgramFiles_def c1 c2 disableWow64FsRedirection_def
        revertWow64FsRedirection_def)
qed

lemma getRegValue_loop_wow64:
  assumes run: "getRegValue_loop w key keyName x = Some y"
  shows "wow64 (snd (snd (snd y))) = wow64 (snd (snd (snd x)))"
proof (rule getRegValue_loop.raw_induct
    [where P = "\<lambda>w key keyName x y. wow64 (snd (snd (snd y))) = wow64 (snd (snd (snd x)))"
       and xa = "(((w, key), keyName), x)" and y = y, unfolded prod.case, OF _ run])
  fix loop :: "world \<Rightarrow> hkey \<Rightarrow> string \<Rightarrow> lstatus \<times> dword \<times> string \<times> proc
                 \<Rightarrow> (lstatus \<times> dword \<times> string \<times> proc) option"
    and w key keyName x y
  assume IH: "\<And>w key keyName x y. loop w key keyName x = Some y \<Longrightarrow>
                wow64 (snd (snd (snd y))) = wow64 (snd (snd (snd x)))"
    and body: "(case x of
        (ret, sz, buffer, st) \<Rightarrow>
          if ret = ERROR_MORE_DATA \<and> sz < 65536 then
            (case RegQueryValueExA w key keyName sz of
               (ret', sz', bytes) \<Rightarrow>
                 let buffer' = copied buffer bytes;
                     st' = probed (RegQuery key keyName sz) st
                 in if ret' = ERROR_MORE_DATA
                    then loop w key keyName
                           (ret', sz' * 2, realloc w buffer' (unat (sz' * 2)), st')
                    else (case store_nul buffer' (unat sz') st' of
                            (buffer'', st'') \<Rightarrow>
                              loop w key keyName (ret', sz', buffer'', st'')))
          else Some x) = Some y"
  obtain ret sz buffer st where x: "x = (ret, sz, buffer, st)"
    by (cases x) auto
  show "wow64 (snd (snd (snd y))) = wow64 (snd (snd (snd x)))"
  proof (cases "ret = ERROR_MORE_DATA \<and> sz < 65536")
    case False
    with body x show ?thesis by auto
  next
    case True
    obtain ret' sz' bytes where q: "RegQueryValueExA w key keyName sz = (ret', sz', bytes)"
      by (cases "RegQueryValueExA w key keyName sz") auto
    show ?thesis
    proof (cases "ret' = ERROR_MORE_DATA")
      case more: True
      with body x True q have
        "loop w key keyName
           (ret', sz' * 2, realloc w (copied buffer bytes) (unat (sz' * 2)),
            probed (RegQuery key keyName sz) st) = Some y"
        by (simp add: Let_def)
      from IH [OF this] show ?thesis
        by (simp add: x probed_def)
    next
      case False
      with body x True q have
        "loop w key keyName
           (ret', sz', store_nul (copied buffer bytes) (unat sz')
                         (probed (RegQuery key keyName sz) st)) = Some y"
        by (simp add: Let_def split: prod.splits)
      from IH [OF this] show ?thesis
        by (simp add: x probed_def store_nul_wow64)
    qed
  qed
qed

lemma getRegValue_wow64:
  "getRegValue w st keyPath keyName access out = Some r \<Longrightarrow> wow64 (snd (snd r)) = wow64 st"
  by (auto simp: getRegValue_def Let_def probed_def
      split: prod.splits if_splits option.splits dest!: getRegValue_loop_wow64)

lemma exploreJavaRegistry_wow64:
  "exploreJavaRegistry w entry access st out = Some r \<Longrightarrow> wow64 (snd (snd r)) = wow64 st"
  by (auto simp: exploreJavaRegistry_def Let_def checkBinPath_eq
      split: prod.splits if_splits option.splits dest!: getRegValue_wow64)

lemma first_validated_wow64:
  "first_validated w order st out = Some r \<Longrightarrow> wow64 (snd (snd r)) = wow64 st"
proof (induction order arbitrary: st out)
  case Nil
  then show ?case by auto
next
  case (Cons c order)
  obtain entry access where c: "c = (entry, access)" by (cases c) auto
  from Cons.prems show ?case
    by (auto simp: c split: option.splits if_splits
        dest!: exploreJavaRegistry_wow64 Cons.IH)
qed

text \<open>
  C3. After \<^verbatim>\<open>checkPath\<close>, \<^verbatim>\<open>checkBinPath\<close>, \<^verbatim>\<open>findJavaInProgramFiles\<close> and
  \<^verbatim>\<open>findJavaInEnvPath\<close> the redirection of the thread is what it was before the call,
  whether the call found a launcher or not; the same holds for \<^verbatim>\<open>findJavaInRegistry\<close>
  whenever it returns.
\<close>

theorem wow64_redirection_restored:
  "wow64 (snd (snd (checkPath w st d))) = wow64 st
   \<and> wow64 (snd (snd (checkBinPath w st d))) = wow64 st
   \<and> wow64 (snd (snd (findJavaInProgramFiles w st out))) = wow64 st
   \<and> wow64 (snd (snd (findJavaInEnvPath w st out))) = wow64 st
   \<and> (\<forall>r. findJavaInRegistry w st out = Some r \<longrightarrow> wow64 (snd (snd r)) = wow64 st)"
  by (simp add: checkPath_eq checkBinPath_eq findJavaInProgramFiles_wow64
      findJavaInEnvPath_wow64 findJavaInRegistry_first_validated first_validated_wow64)


theorem wow64_redirection_restored_witness:
  "wow64 (snd (snd (checkPath env_host fresh ''Z:''))) = Redirected
   \<and> wow64 (snd (snd (checkPath env_host (fresh\<lparr>wow64 := Suppressed\<rparr>) ''X:''))) = Suppressed
   \<and> findJavaInProgramFiles pf64_host fresh [] =
       (True, launcher_under (join_path (join_path ''P:'' ''Java'') ''jdk1.8''),
        fresh\<lparr>probes :=
          [FolderPath, DirExists (join_path ''P:'' ''Java''),
           FolderPath, DirExists (join_path ''P:'' ''Java''),
           FindFirstFile (join_path (join_path ''P:'' ''Java'') ''j*''),
           FileExists (launcher_under (join_path (join_path ''P:'' ''Java'') ''jdk1.8'')),
           ExecWait (version_cmd
             (launcher_under (join_path (join_path ''P:'' ''Java'') ''jdk1.8'')))]\<rparr>)
   \<and> wow64 (snd (snd (findJavaInProgramFiles bare_host fresh []))) = Redirected
   \<and> wow64 (snd (snd (findJavaInEnvPath path_host fresh []))) = Redirected"
  using wow64_redirection_restored [of env_host fresh "''Z:''" "[]"]
    wow64_redirection_restored [of env_host "fresh\<lparr>wow64 := Suppressed\<rparr>" "''X:''" "[]"]
    wow64_redirection_restored [of pf64_host fresh "[]" "[]"]
    wow64_redirection_restored [of bare_host fresh "[]" "[]"]
    wow64_redirection_restored [of path_host fresh "[]" "[]"]
  by (simp add: findJavaInProgramFiles_def checkProgramFiles_def checkProgramFiles_body_def
      checkBinPath_eq disableWow64FsRedirection_def revertWow64FsRedirection_def probed_def
      Let_def host_defs FILE_ATTRIBUTE_DIRECTORY_def win_consts)

subsection \<open>The out-parameter of the locators\<close>

lemma findJavaInEnvPath_loop_keeps_out:
  "\<not> fst (findJavaInEnvPath_loop w st paths out) \<Longrightarrow>
     fst (snd (findJavaInEnvPath_loop w st paths out)) = out"
  by (induction paths arbitrary: st) (simp_all add: checkPath_eq split: if_splits)

lemma findJavaInEnvPath_keeps_out:
  "\<not> fst (findJavaInEnvPath w st out) \<Longrightarrow> fst (snd (findJavaInEnvPath w st out)) = out"
  by (auto simp: findJavaInEnvPath_def checkBinPath_eq findJavaInEnvPath_loop_keeps_out
      split: option.splits if_splits)

lemma exploreJavaRegistry_keeps_out:
  "exploreJavaRegistry w entry access st out = Some (False, p, st') \<Longrightarrow> p = out"
  by (auto simp: exploreJavaRegistry_def Let_def split: option.splits if_splits prod.splits)

lemma first_validated_keeps_out:
  "first_validated w order st out = Some (False, p, st') \<Longrightarrow> p = out"
proof (induction order arbitrary: st out)
  case Nil
  then show ?case by simp
next
  case (Cons c order)
  obtain entry access where c: "c = (entry, access)" by (cases c) auto
  from Cons.prems show ?case
    by (auto simp: c split: option.splits if_splits
        dest!: Cons.IH dest: exploreJavaRegistry_keeps_out)
qed

lemma checkProgramFiles_loop_keeps_out:
  "\<not> fst (checkProgramFiles_loop w path fd rest (False, out, st)) \<Longrightarrow>
     fst (snd (checkProgramFiles_loop w path fd rest (False, out, st))) = out"
  using checkProgramFiles_loop_find [of w path fd rest out st st]
  by (auto split: option.splits)

lemma checkProgramFiles_keeps_out:
  "\<not> fst (checkProgramFiles w st out) \<Longrightarrow> fst (snd (checkProgramFiles w st out)) = out"
  by (auto simp: checkProgramFiles_def Let_def checkProgramFiles_loop_keeps_out
      split: option.splits list.splits if_splits)

lemma findJavaInProgramFiles_keeps_out:
  assumes "\<not> fst (findJavaInProgramFiles w st out)"
  shows "fst (snd (findJavaInProgramFiles w st out)) = out"
proof -
  obtain found p st1 where c1: "checkProgramFiles w st out = (found, p, st1)"
    by (cases "checkProgramFiles w st out") auto
  with assms have nf: "\<not> found"
    by (auto simp: findJavaInProgramFiles_def split: if_splits)
  with c1 checkProgramFiles_keeps_out [of w st out] have p: "p = out" by simp
  obtain found' p' st3 where
    c2: "checkProgramFiles w (st1\<lparr>wow64 := Suppressed\<rparr>) out = (found', p', st3)"
    by (cases "checkProgramFiles w (st1\<lparr>wow64 := Suppressed\<rparr>) out") auto
  show ?thesis
    using assms nf c2 checkProgramFiles_keeps_out [of w "st1\<lparr>wow64 := Suppressed\<rparr>" out]
    by (simp add: findJavaInProgramFiles_def c1 p disableWow64FsRedirection_def
        revertWow64FsRedirection_def split: if_splits)
qed

text \<open>
  C10. When \<^verbatim>\<open>findJavaInEnvPath\<close>, \<^verbatim>\<open>findJavaInRegistry\<close> or \<^verbatim>\<open>findJavaInProgramFiles\<close>
  returns false, \<^verbatim>\<open>*outJavaPath\<close> holds the value it had before the call.
\<close>

theorem locators_keep_out_on_failure:
  "(\<not> fst (findJavaInEnvPath w st out) \<longrightarrow> fst (snd (findJavaInEnvPath w st out)) = out)
   \<and> (\<forall>p st'. findJavaInRegistry w st out = Some (False, p, st') \<longrightarrow> p = out)
   \<and> (\<not> fst (findJavaInProgramFiles w st out)
        \<longrightarrow> fst (snd (findJavaInProgramFiles w st out)) = out)"
  by (auto simp: findJavaInEnvPath_keeps_out findJavaInProgramFiles_keeps_out
      findJavaInRegistry_first_validated dest: first_validated_keeps_out)

theorem locators_keep_out_on_failure_witness:
  "fst (findJavaInEnvPath bare_host fresh ''old'') = False
   \<and> fst (snd (findJavaInEnvPath bare_host fresh ''old'')) = ''old''
   \<and> (\<exists>st'. findJavaInRegistry bare_host fresh ''old'' = Some (False, ''old'', st'))
   \<and> fst (findJavaInProgramFiles bare_host fresh ''old'') = False
   \<and> fst (snd (findJavaInProgramFiles bare_host fresh ''old'')) = ''old''
   \<and> fst (findJavaInEnvPath rejecting_host fresh ''old'') = False
   \<and> fst (snd (findJavaInEnvPath rejecting_host fresh ''old'')) = ''old''
   \<and> probes (snd (snd (findJavaInEnvPath rejecting_host fresh ''old''))) =
       [FileExists (launcher_under ''J:''), ExecWait (version_cmd (launcher_under ''J:'')),
        FileExists (join_path ''X:'' ''java.exe''),
        ExecWait (version_cmd (join_path ''X:'' ''java.exe'')),
        FileExists (join_path ''Y:'' ''java.exe''),
        ExecWait (version_cmd (join_path ''Y:'' ''java.exe''))]
   \<and> (\<exists>st'. findJavaInRegistry rejecting_host fresh ''old'' = Some (False, ''old'', st')
          \<and> probes st' =
             concat (map (\<lambda>sam.
               [RegOpen jre_key sam, RegQuery 11 ''CurrentVersion'' 4096,
                RegOpen (join_path jre_key ''1.7'') sam, RegQuery 12 ''JavaHome'' 4096,
                FileExists (launcher_under ''R:''),
                ExecWait (version_cmd (launcher_under ''R:'')),
                RegOpen (join_path JavaSoft ''Java Development Kit'') sam])
               [KEY_READ, KEY_READ OR KEY_WOW64_32KEY, KEY_READ OR KEY_WOW64_64KEY]))
   \<and> fst (findJavaInProgramFiles rejecting_host fresh ''old'') = False
   \<and> fst (snd (findJavaInProgramFiles rejecting_host fresh ''old'')) = ''old''
   \<and> probes (snd (snd (findJavaInProgramFiles rejecting_host fresh ''old''))) =
       (\<lambda>xs. xs @ xs)
         [FolderPath, DirExists (join_path ''P:'' ''Java''),
          FindFirstFile (join_path (join_path ''P:'' ''Java'') ''j*''),
          FileExists (launcher_under (join_path (join_path ''P:'' ''Java'') ''jdk1.8'')),
          ExecWait (version_cmd
            (launcher_under (join_path (join_path ''P:'' ''Java'') ''jdk1.8''))),
          FindNextFile,
          FileExists (launcher_under (join_path (join_path ''P:'' ''Java'') ''jre1.6'')),
          ExecWait (version_cmd
            (launcher_under (join_path (join_path ''P:'' ''Java'') ''jre1.6''))),
          FindNextFile]"
proof -
  have e: "\<not> fst (findJavaInEnvPath bare_host fresh ''old'')"
    by (simp add: findJavaInEnvPath_def host_defs)
  have p: "\<not> fst (findJavaInProgramFiles bare_host fresh ''old'')"
    by (simp add: findJavaInProgramFiles_def checkProgramFiles_def host_defs win_consts)
  have no0: "getRegValue bare_host st keyPath ''CurrentVersion'' 0 [] =
              Some (False, [], probed (RegOpen keyPath KEY_READ) st)" for st keyPath
    using getRegValue_open_fails [of bare_host keyPath 0 st "''CurrentVersion''" "[]"]
    by (simp add: bare_host_def win_consts)
  have r: "\<exists>p st'. findJavaInRegistry bare_host fresh ''old'' = Some (False, p, st')"
    by (simp add: findJavaInRegistry_first_validated registry_order_def exploreJavaRegistry_def
        no0) (simp add: host_defs win_consts)
  then obtain p' st' where r': "findJavaInRegistry bare_host fresh ''old'' = Some (False, p', st')"
    by blast
  have e2: "\<not> fst (findJavaInEnvPath rejecting_host fresh ''old'')"
    and el: "probes (snd (snd (findJavaInEnvPath rejecting_host fresh ''old''))) =
       [FileExists (launcher_under ''J:''), ExecWait (version_cmd (launcher_under ''J:'')),
        FileExists (join_path ''X:'' ''java.exe''),
        ExecWait (version_cmd (join_path ''X:'' ''java.exe'')),
        FileExists (join_path ''Y:'' ''java.exe''),
        ExecWait (version_cmd (join_path ''Y:'' ''java.exe''))]"
    by (simp_all add: findJavaInEnvPath_def checkBinPath_eq checkPath_eq host_defs)
  have p2: "\<not> fst (findJavaInProgramFiles rejecting_host fresh ''old'')"
    and pl: "probes (snd (snd (findJavaInProgramFiles rejecting_host fresh ''old''))) =
       [FolderPath, DirExists (join_path ''P:'' ''Java''),
        FindFirstFile (join_path (join_path ''P:'' ''Java'') ''j*''),
        FileExists (launcher_under (join_path (join_path ''P:'' ''Java'') ''jdk1.8'')),
        ExecWait (version_cmd
          (launcher_under (join_path (join_path ''P:'' ''Java'') ''jdk1.8''))),
        FindNextFile,
        FileExists (launcher_under (join_path (join_path ''P:'' ''Java'') ''jre1.6'')),
        ExecWait (version_cmd
          (launcher_under (join_path (join_path ''P:'' ''Java'') ''jre1.6''))),
        FindNextFile,
        FolderPath, DirExists (join_path ''P:'' ''Java''),
        FindFirstFile (join_path (join_path ''P:'' ''Java'') ''j*''),
        FileExists (launcher_under (join_path (join_path ''P:'' ''Java'') ''jdk1.8'')),
        ExecWait (version_cmd
          (launcher_under (join_path (join_path ''P:'' ''Java'') ''jdk1.8''))),
        FindNextFile,
        FileExists (launcher_under (join_path (join_path ''P:'' ''Java'') ''jre1.6'')),
        ExecWait (version_cmd
          (launcher_under (join_path (join_path ''P:'' ''Java'') ''jre1.6''))),
        FindNextFile]"
    by (simp_all add: findJavaInProgramFiles_def checkProgramFiles_def checkProgramFiles_body_def
        checkBinPath_eq disableWow64FsRedirection_def revertWow64FsRedirection_def probed_def
        Let_def host_defs FILE_ATTRIBUTE_DIRECTORY_def win_consts)

  have ok: "ERROR_SUCCESS \<noteq> ERROR_MORE_DATA" by (simp add: win_consts)
  have o1: "RegOpenKeyExA rejecting_host jre_key sam = (ERROR_SUCCESS, 11)" for sam
    by (simp add: rejecting_host_def bare_host_def)
  have o2: "RegOpenKeyExA rejecting_host (join_path jre_key ''1.7'') sam = (ERROR_SUCCESS, 12)" for sam
    by (simp add: host_defs)
  have q1: "RegQueryValueExA rejecting_host 11 ''CurrentVersion'' 4096 =
              (ERROR_SUCCESS, 4, Some (''1.7'' @ [NUL]))"
    by (simp add: rejecting_host_def bare_host_def)
  have q2: "RegQueryValueExA rejecting_host 12 ''JavaHome'' 4096 =
              (ERROR_SUCCESS, 3, Some (''R:'' @ [NUL]))"
    by (simp add: rejecting_host_def bare_host_def)
  have cv: "getRegValue rejecting_host st jre_key ''CurrentVersion'' access [] =
              Some (True, ''1.7'',
                probed (RegQuery 11 ''CurrentVersion'' 4096)
                  (probed (RegOpen jre_key (KEY_READ OR access)) st))" for st access
    using getRegValue_reads [of rejecting_host jre_key access 11 "''CurrentVersion''"
        ERROR_SUCCESS 4 "''1.7'' @ [NUL]" st "[]"]
    by (simp add: o1 q1 ok c_str_def NUL_def)
  have jh: "getRegValue rejecting_host st (join_path jre_key ''1.7'') ''JavaHome'' access [] =
              Some (True, ''R:'',
                probed (RegQuery 12 ''JavaHome'' 4096)
                  (probed (RegOpen (join_path jre_key ''1.7'') (KEY_READ OR access)) st))" for st access
    using getRegValue_reads [of rejecting_host "join_path jre_key ''1.7''" access 12
        "''JavaHome''" ERROR_SUCCESS 3 "''R:'' @ [NUL]" st "[]"]
    by (simp add: o2 q2 ok c_str_def NUL_def)
  have no: "getRegValue rejecting_host st (join_path JavaSoft ''Java Development Kit'')
              ''CurrentVersion'' access [] =
              Some (False, [],
                probed (RegOpen (join_path JavaSoft ''Java Development Kit'') (KEY_READ OR access)) st)"
    for st access
    by (rule getRegValue_open_fails) (simp add: host_defs win_consts)
  have ap: "addPath rejecting_host = join_path"
    by (simp add: rejecting_host_def bare_host_def)
  have arch: "wProcessorArchitecture rejecting_host = PROCESSOR_ARCHITECTURE_AMD64"
    by (simp add: rejecting_host_def bare_host_def)
  have chk: "checkBinPath rejecting_host st ''R:'' =
               (False, launcher_under ''R:'',
                st\<lparr>probes := probes st @
                  [FileExists (launcher_under ''R:''), ExecWait (version_cmd (launcher_under ''R:''))]\<rparr>)" for st
    by (simp add: checkBinPath_eq rejecting_host_def bare_host_def launcher_under_def)
  have jk: "join_path JavaSoft ''Java Runtime Environment'' = jre_key"
    by (simp add: jre_key_def)
  have rr: "findJavaInRegistry rejecting_host fresh ''old'' =
         Some (False, ''old'',
           fresh\<lparr>probes :=
             concat (map (\<lambda>sam.
               [RegOpen jre_key sam, RegQuery 11 ''CurrentVersion'' 4096,
                RegOpen (join_path jre_key ''1.7'') sam, RegQuery 12 ''JavaHome'' 4096,
                FileExists (launcher_under ''R:''), ExecWait (version_cmd (launcher_under ''R:'')),
                RegOpen (join_path JavaSoft ''Java Development Kit'') sam])
               [KEY_READ, KEY_READ OR KEY_WOW64_32KEY, KEY_READ OR KEY_WOW64_64KEY])\<rparr>)"
    by (simp add: findJavaInRegistry_first_validated registry_order_def exploreJavaRegistry_def
        arch ap jk cv jh no chk probed_def fresh_def)
  from locators_keep_out_on_failure [of bare_host fresh "''old''"]
    locators_keep_out_on_failure [of rejecting_host fresh "''old''"] e p r' e2 p2 rr
  show ?thesis by (auto simp: el pl)
qed


end
